theory Spec2Isabelle
  imports Complex_Main "HOL-Library.Char_ord" "HOL-Library.List_Lexorder"
begin

section \<open>Times of day, dates and datetimes\<close>

text \<open>
  The program uses Python's \<^verbatim>\<open>datetime.time\<close>, \<^verbatim>\<open>datetime.date\<close> and
  \<^verbatim>\<open>datetime.datetime\<close>. A time of day has the four fields of the Python object; the
  constructor of the Python class only builds objects that satisfy \<open>valid_time\<close>.
\<close>

record time =
  hour :: nat
  minute :: nat
  second :: nat
  microsecond :: nat

definition valid_time :: "time \<Rightarrow> bool" where
  "valid_time t \<longleftrightarrow> hour t < 24 \<and> minute t < 60 \<and> second t < 60 \<and> microsecond t < 1000000"

text \<open>\<^verbatim>\<open>time(h, m)\<close>: seconds and microseconds default to zero.\<close>

definition mk_time :: "nat \<Rightarrow> nat \<Rightarrow> time" where
  "mk_time h m = \<lparr>hour = h, minute = m, second = 0, microsecond = 0\<rparr>"

record date =
  year :: nat
  month :: nat
  day :: nat

text \<open>\<^verbatim>\<open>datetime.combine(d, t)\<close> is the pair of its date and its time of day.\<close>

type_synonym datetime = "date \<times> time"

definition combine :: "date \<Rightarrow> time \<Rightarrow> datetime" where
  "combine d t = (d, t)"

text \<open>
  Python compares naive datetimes as the tuples
  \<^verbatim>\<open>(year, month, day, hour, minute, second, microsecond)\<close>, lexicographically.
\<close>

fun lex_le :: "nat list \<Rightarrow> nat list \<Rightarrow> bool" where
  "lex_le [] ys = True"
| "lex_le (x # xs) [] = False"
| "lex_le (x # xs) (y # ys) = (x < y \<or> (x = y \<and> lex_le xs ys))"

definition time_fields :: "time \<Rightarrow> nat list" where
  "time_fields t = [hour t, minute t, second t, microsecond t]"

definition datetime_fields :: "datetime \<Rightarrow> nat list" where
  "datetime_fields dt = [year (fst dt), month (fst dt), day (fst dt)] @ time_fields (snd dt)"

definition datetime_le :: "datetime \<Rightarrow> datetime \<Rightarrow> bool" where
  "datetime_le a b = lex_le (datetime_fields a) (datetime_fields b)"

definition datetime_ge :: "datetime \<Rightarrow> datetime \<Rightarrow> bool" where
  "datetime_ge a b = lex_le (datetime_fields b) (datetime_fields a)"

text \<open>The proleptic Gregorian ordinal of a date, as \<^verbatim>\<open>date.toordinal()\<close> computes it.\<close>

definition is_leap :: "nat \<Rightarrow> bool" where
  "is_leap y \<longleftrightarrow> y mod 4 = 0 \<and> (y mod 100 \<noteq> 0 \<or> y mod 400 = 0)"

definition days_before_year :: "nat \<Rightarrow> int" where
  "days_before_year y =
     (let p = int y - 1 in p * 365 + p div 4 - p div 100 + p div 400)"

definition days_in_month :: "nat \<Rightarrow> nat \<Rightarrow> nat" where
  "days_in_month y m =
     (if m = 2 then (if is_leap y then 29 else 28)
      else if m \<in> {4, 6, 9, 11} then 30 else 31)"

definition days_before_month :: "nat \<Rightarrow> nat \<Rightarrow> int" where
  "days_before_month y m = int (sum_list (map (days_in_month y) [1..<m]))"

definition toordinal :: "date \<Rightarrow> int" where
  "toordinal d = days_before_year (year d) + days_before_month (year d) (month d) + int (day d)"

text \<open>
  The difference of two datetimes is a \<^verbatim>\<open>timedelta\<close>; it is modelled by the exact number
  of microseconds it stands for. \<^verbatim>\<open>total_seconds()\<close> and the two divisions that follow
  it in the program are float divisions; they are modelled by exact rational arithmetic.
\<close>

definition seconds_of_day :: "time \<Rightarrow> int" where
  "seconds_of_day t = int (second t) + int (minute t) * 60 + int (hour t) * 3600"

definition datetime_sub :: "datetime \<Rightarrow> datetime \<Rightarrow> int" where
  "datetime_sub a b =
     ((toordinal (fst a) - toordinal (fst b)) * 86400
        + (seconds_of_day (snd a) - seconds_of_day (snd b))) * 1000000
     + (int (microsecond (snd a)) - int (microsecond (snd b)))"

definition total_seconds :: "int \<Rightarrow> rat" where
  "total_seconds td = of_int td / 1000000"

section \<open>Formatting integers\<close>

text \<open>The decimal digits of an integer, as an f-string prints it.\<close>

definition digit_char :: "nat \<Rightarrow> char" where
  "digit_char d = ''0123456789'' ! d"

fun str_nat :: "nat \<Rightarrow> string" where
  "str_nat n = (if n < 10 then [digit_char n] else str_nat (n div 10) @ [digit_char (n mod 10)])"

declare str_nat.simps [simp del]

definition str_int :: "int \<Rightarrow> string" where
  "str_int i = (if i < 0 then CHR ''-'' # str_nat (nat (- i)) else str_nat (nat i))"

section \<open>Policy constants\<close>

definition SHIFT_START :: time where "SHIFT_START = mk_time 9 15"
definition SHIFT_END :: time where "SHIFT_END = mk_time 17 45"
definition LATE_UNIT_MINUTES :: rat where "LATE_UNIT_MINUTES = 15"
definition HALF_DAY_START_TIME_NEW :: time where "HALF_DAY_START_TIME_NEW = mk_time 10 16"
definition HALF_DAY_END_TIME_NEW :: time where "HALF_DAY_END_TIME_NEW = mk_time 13 30"
definition EVENING_HALF_DAY_TIME :: time where "EVENING_HALF_DAY_TIME = mk_time 16 45"
definition ONE_HOUR_LEAVE_START_TIME :: time where "ONE_HOUR_LEAVE_START_TIME = mk_time 16 46"
definition ONE_HOUR_LEAVE_END_TIME :: time where "ONE_HOUR_LEAVE_END_TIME = mk_time 17 44"

section \<open>The rule engine\<close>

text \<open>
  \<^verbatim>\<open>calculate_late_status\<close> and \<^verbatim>\<open>calculate_early_out_status\<close> read the wall clock
  (\<^verbatim>\<open>datetime.today().date()\<close>); the date read is the parameter \<open>today\<close>. The result is
  the triple (units, label, half-day flag).
\<close>

definition calculate_late_status :: "date \<Rightarrow> time option \<Rightarrow> int \<times> string \<times> int" where
  "calculate_late_status today in_time =
     (case in_time of
        None \<Rightarrow> (0, ''Missing IN Time'', 0)
      | Some t \<Rightarrow>
          let shift_start_dt = combine today SHIFT_START;
              in_time_dt = combine today t;
              half_day_start_dt_new = combine today HALF_DAY_START_TIME_NEW;
              half_day_end_dt_new = combine today HALF_DAY_END_TIME_NEW
          in if datetime_ge in_time_dt half_day_start_dt_new
                \<and> datetime_le in_time_dt half_day_end_dt_new
             then (0, ''Half Day Leave (Morning IN)'', 1)
             else
               let late_minutes = total_seconds (datetime_sub in_time_dt shift_start_dt) / 60
               in if late_minutes \<le> 0 then (0, ''On Time'', 0)
                  else
                    let late_units = \<lceil>late_minutes / LATE_UNIT_MINUTES\<rceil>
                    in (late_units, str_int late_units @ '' x 15 Min Late'', 0))"

definition calculate_early_out_status :: "date \<Rightarrow> time option \<Rightarrow> int \<times> string \<times> int" where
  "calculate_early_out_status today out_time =
     (case out_time of
        None \<Rightarrow> (0, ''Missing OUT Time'', 0)
      | Some t \<Rightarrow>
          let shift_end_dt = combine today SHIFT_END;
              out_time_dt = combine today t;
              early_out_minutes = total_seconds (datetime_sub shift_end_dt out_time_dt) / 60
          in if early_out_minutes \<le> 0 then (0, ''On Time/Overtime'', 0)
             else
               let one_hour_leave_start_dt = combine today ONE_HOUR_LEAVE_START_TIME;
                   one_hour_leave_end_dt = combine today ONE_HOUR_LEAVE_END_TIME
               in if datetime_ge out_time_dt one_hour_leave_start_dt
                     \<and> datetime_le out_time_dt one_hour_leave_end_dt
                  then (1, ''1 Hour Leave'', 0)
                  else
                    let evening_half_day_dt = combine today EVENING_HALF_DAY_TIME
                    in if datetime_le out_time_dt evening_half_day_dt
                       then (0, ''Half Day Leave (Evening OUT)'', 1)
                       else (0, ''Other Early Out'', 0))"

section \<open>Strings and exceptions\<close>

text \<open>
  Exceptions are values: a computation that may raise returns \<open>exn + 'a\<close>, with \<open>Inl\<close>
  the exception raised.
\<close>

datatype exn = ValueError | IndexError | KeyError | TypeError

text \<open>
  \<^verbatim>\<open>str.strip()\<close> removes the characters for which \<^verbatim>\<open>str.isspace()\<close> holds from both
  ends; among the first 256 code points these are the ones listed.
\<close>

definition is_space :: "char \<Rightarrow> bool" where
  "is_space c \<longleftrightarrow> (of_char c :: nat) \<in> {9, 10, 11, 12, 13, 28, 29, 30, 31, 32, 133, 160}"

definition strip :: "string \<Rightarrow> string" where
  "strip s = rev (dropWhile is_space (rev (dropWhile is_space s)))"

text \<open>\<^verbatim>\<open>s.split(c)\<close> for a one-character separator; the result is never empty.\<close>

fun split_on :: "char \<Rightarrow> string \<Rightarrow> string list" where
  "split_on c [] = [[]]"
| "split_on c (x # xs) =
     (if x = c then [] # split_on c xs
      else (x # hd (split_on c xs)) # tl (split_on c xs))"

definition starts_with :: "string \<Rightarrow> string \<Rightarrow> bool" where
  "starts_with p s \<longleftrightarrow> take (length p) s = p"

section \<open>The time parser\<close>

text \<open>
  \<^verbatim>\<open>datetime.strptime(s, "%H:%M")\<close> matches the regular expression
  \<^verbatim>\<open>(2[0-3]|[0-1]\d|\d):([0-5]\d|\d)\<close> at the start of \<open>s\<close> and raises ValueError when
  it does not match or when characters remain after the match. A two-digit alternative that
  matches is never given up for the one-digit alternative, since the colon cannot match a
  digit; so the alternatives are tried once, in order.
\<close>

definition is_digit :: "char \<Rightarrow> bool" where
  "is_digit c \<longleftrightarrow> c \<in> set ''0123456789''"

definition digit_val :: "char \<Rightarrow> nat" where
  "digit_val c = of_char c - 48"

fun match_H :: "string \<Rightarrow> (nat \<times> string) option" where
  "match_H (a # b # rest) =
     (if a = CHR ''2'' \<and> b \<in> set ''0123'' then Some (20 + digit_val b, rest)
      else if a \<in> set ''01'' \<and> is_digit b then Some (10 * digit_val a + digit_val b, rest)
      else if is_digit a then Some (digit_val a, b # rest)
      else None)"
| "match_H [a] = (if is_digit a then Some (digit_val a, []) else None)"
| "match_H [] = None"

fun match_M :: "string \<Rightarrow> (nat \<times> string) option" where
  "match_M (a # b # rest) =
     (if a \<in> set ''012345'' \<and> is_digit b then Some (10 * digit_val a + digit_val b, rest)
      else if is_digit a then Some (digit_val a, b # rest)
      else None)"
| "match_M [a] = (if is_digit a then Some (digit_val a, []) else None)"
| "match_M [] = None"

definition strptime_HM :: "string \<Rightarrow> exn + time" where
  "strptime_HM s =
     (case match_H s of
        None \<Rightarrow> Inl ValueError
      | Some (h, r1) \<Rightarrow>
          (case r1 of
             [] \<Rightarrow> Inl ValueError
           | c # r2 \<Rightarrow>
               if c \<noteq> CHR '':'' then Inl ValueError
               else (case match_M r2 of
                       None \<Rightarrow> Inl ValueError
                     | Some (m, r3) \<Rightarrow>
                         if r3 = [] then Inr (mk_time h m) else Inl ValueError)))"

text \<open>
  \<^verbatim>\<open>pd.to_datetime(s, errors='coerce')\<close> belongs to the pandas library; it is the
  parameter \<open>to_datetime\<close>, which may raise, return \<^verbatim>\<open>NaT\<close> (\<open>None\<close>) or return a
  timestamp. The \<^verbatim>\<open>except ValueError\<close> clause handles ValueError only; the bare
  \<^verbatim>\<open>except\<close> around the pandas call handles every exception.
\<close>

definition to_time_safe :: "(string \<Rightarrow> exn + datetime option) \<Rightarrow> string \<Rightarrow> exn + time option" where
  "to_time_safe to_datetime s0 =
     (let s = strip s0
      in if s = [] \<or> s \<in> set [''00:00'', ''nan'', ''NaT''] then Inr None
         else (case strptime_HM s of
                 Inr t \<Rightarrow> Inr (Some t)
               | Inl e \<Rightarrow>
                   if e = ValueError
                   then (case to_datetime s of
                           Inl _ \<Rightarrow> Inr None
                         | Inr None \<Rightarrow> Inr None
                         | Inr (Some dt_obj) \<Rightarrow> Inr (Some (snd dt_obj)))
                   else Inl e))"

text \<open>
  A stand-in for the pandas parser on strings of the form \<^verbatim>\<open>HH:MM:SS\<close>, used to run
  the model on concrete cells: such a string parses to that time of day on the given date,
  every other string to \<^verbatim>\<open>NaT\<close>.
\<close>

definition two_digits :: "char \<Rightarrow> char \<Rightarrow> nat" where
  "two_digits a b = 10 * digit_val a + digit_val b"

fun to_datetime_hms :: "date \<Rightarrow> string \<Rightarrow> exn + datetime option" where
  "to_datetime_hms d [h1, h2, c1, m1, m2, c2, s1, s2] =
     (if list_all is_digit [h1, h2, m1, m2, s1, s2] \<and> c1 = CHR '':'' \<and> c2 = CHR '':''
         \<and> two_digits h1 h2 < 24 \<and> two_digits m1 m2 < 60 \<and> two_digits s1 s2 < 60
      then Inr (Some (d, \<lparr>hour = two_digits h1 h2, minute = two_digits m1 m2,
                           second = two_digits s1 s2, microsecond = 0\<rparr>))
      else Inr None)"
| "to_datetime_hms d s = Inr None"

section \<open>The block extractor\<close>

text \<open>
  The raw grid is a pandas DataFrame read without a header: a rectangular table of cells,
  given by its rows, which all have the length \<open>ncols\<close>. Missing cells are filled with the empty string by \<^verbatim>\<open>fillna('')\<close>
  and every cell is read through \<^verbatim>\<open>str\<close>, so the cells are strings.
\<close>

type_synonym grid = "string list list"

definition ncols :: "grid \<Rightarrow> nat" where
  "ncols g = (case g of [] \<Rightarrow> 0 | r # _ \<Rightarrow> length r)"

text \<open>\<^verbatim>\<open>df_raw[0]\<close> raises KeyError when the frame has no column 0.\<close>

definition column0 :: "grid \<Rightarrow> exn + string list" where
  "column0 g = (if ncols g = 0 then Inl KeyError else Inr (map (\<lambda>r. strip (hd r)) g))"

text \<open>
  \<^verbatim>\<open>df_raw.iloc[r, c]\<close> raises IndexError when the row or the column is out of bounds;
  \<^verbatim>\<open>df_raw.iloc[r, c:]\<close> raises IndexError when the row is, and an out-of-bounds slice
  is empty.
\<close>

definition iloc_cell :: "grid \<Rightarrow> nat \<Rightarrow> nat \<Rightarrow> exn + string" where
  "iloc_cell g r c =
     (if r < length g \<and> c < length (g ! r) then Inr (g ! r ! c) else Inl IndexError)"

definition iloc_from :: "grid \<Rightarrow> nat \<Rightarrow> nat \<Rightarrow> exn + string list" where
  "iloc_from g r c = (if r < length g then Inr (drop c (g ! r)) else Inl IndexError)"

text \<open>
  The positions of the rows of a column that satisfy a predicate: the index of the
  filtered frame.
\<close>

definition matching_rows :: "(string \<Rightarrow> bool) \<Rightarrow> string list \<Rightarrow> nat list" where
  "matching_rows P col = filter (\<lambda>i. P (col ! i)) [0..<length col]"

text \<open>
  A value that is an integer, \<^verbatim>\<open>None\<close> or \<^verbatim>\<open>NaN\<close>. \<^verbatim>\<open>Index.max()\<close> of pandas returns
  \<^verbatim>\<open>NaN\<close> for an empty index, and \<^verbatim>\<open>iloc\<close> raises ValueError for a row position that
  is not an integer.
\<close>

datatype scalar = PyNone | NaN | PyInt nat

definition index_max :: "nat list \<Rightarrow> scalar" where
  "index_max idx = (if idx = [] then NaN else PyInt (Max (set idx)))"

definition iloc_from_scalar :: "grid \<Rightarrow> scalar \<Rightarrow> nat \<Rightarrow> exn + string list" where
  "iloc_from_scalar g r c = (case r of PyInt i \<Rightarrow> iloc_from g i c | _ \<Rightarrow> Inl ValueError)"

text \<open>\<^verbatim>\<open>^Days$\<close>: the dollar also matches before a final newline.\<close>

definition is_days :: "string \<Rightarrow> bool" where
  "is_days s \<longleftrightarrow> s = ''Days'' \<or> s = ''Days'' @ [CHR 0x0A]"

text \<open>\<^verbatim>\<open>Series.apply(f)\<close> with a function that may raise: the first exception ends it.\<close>

fun apply_series :: "('a \<Rightarrow> exn + 'b) \<Rightarrow> 'a list \<Rightarrow> exn + 'b list" where
  "apply_series f [] = Inr []"
| "apply_series f (x # xs) =
     (case f x of
        Inl e \<Rightarrow> Inl e
      | Inr y \<Rightarrow> (case apply_series f xs of Inl e \<Rightarrow> Inl e | Inr ys \<Rightarrow> Inr (y # ys)))"

text \<open>The rows of \<^verbatim>\<open>temp_df\<close> and of the frame that is returned.\<close>

record attendance_row =
  Employee_Name :: string
  Date_Day :: string
  Time_In :: "time option"
  Time_Out :: "time option"

record structured_row = attendance_row +
  Employee_Raw :: string
  Status :: string
  InTime_Raw :: string
  OutTime_Raw :: string

definition select_columns :: "structured_row \<Rightarrow> attendance_row" where
  "select_columns r =
     \<lparr>Employee_Name = Employee_Name r, Date_Day = Date_Day r,
      Time_In = Time_In r, Time_Out = Time_Out r\<rparr>"

definition employee_name_of :: "string \<Rightarrow> string" where
  "employee_name_of x = strip (last (split_on CHR '':'' x))"

definition make_rows ::
  "string \<Rightarrow> string list \<Rightarrow> string list \<Rightarrow> string list \<Rightarrow> string list
     \<Rightarrow> time option list \<Rightarrow> time option list \<Rightarrow> structured_row list" where
  "make_rows employee_str days statuses ins outs tins touts =
     map (\<lambda>(d, s, i, oc, ti, tou).
            \<lparr>Employee_Name = employee_name_of employee_str, Date_Day = d,
             Time_In = ti, Time_Out = tou,
             Employee_Raw = employee_str, Status = s, InTime_Raw = i, OutTime_Raw = oc\<rparr>)
         (zip days (zip statuses (zip ins (zip outs (zip tins touts)))))"

text \<open>
  The body of the loop over the anchor rows, for the anchor at row \<open>emp_row_index\<close>: the rows
  it appends to \<^verbatim>\<open>final_data\<close> (none after \<^verbatim>\<open>continue\<close>), or the exception that leaves
  the loop. Only the three sub-row reads are inside \<^verbatim>\<open>try ... except IndexError\<close>.
\<close>

definition employee_block ::
  "(string \<Rightarrow> exn + datetime option) \<Rightarrow> grid \<Rightarrow> string list \<Rightarrow> nat
     \<Rightarrow> exn + structured_row list" where
  "employee_block to_datetime df_raw day_headers_list_full emp_row_index =
     (case iloc_cell df_raw emp_row_index 3 of
        Inl e \<Rightarrow> Inl e
      | Inr employee_str \<Rightarrow>
          if strip employee_str = [] then Inr []
          else
            (case (case iloc_from df_raw (emp_row_index + 1) 2 of
                     Inl e \<Rightarrow> Inl e
                   | Inr st \<Rightarrow>
                       (case iloc_from df_raw (emp_row_index + 2) 2 of
                          Inl e \<Rightarrow> Inl e
                        | Inr it \<Rightarrow>
                            (case iloc_from df_raw (emp_row_index + 3) 2 of
                               Inl e \<Rightarrow> Inl e
                             | Inr ot \<Rightarrow> Inr (map strip st, map strip it, map strip ot))))
             of
               Inl e \<Rightarrow> if e = IndexError then Inr [] else Inl e
             | Inr (status_data, intime_data, outtime_data) \<Rightarrow>
                 let min_len = min (min (length day_headers_list_full) (length status_data))
                                   (min (length intime_data) (length outtime_data));
                     ins = take min_len intime_data;
                     outs = take min_len outtime_data
                 in (case apply_series (to_time_safe to_datetime) ins of
                       Inl e \<Rightarrow> Inl e
                     | Inr tins \<Rightarrow>
                         (case apply_series (to_time_safe to_datetime) outs of
                            Inl e \<Rightarrow> Inl e
                          | Inr touts \<Rightarrow>
                              Inr (make_rows employee_str (take min_len day_headers_list_full)
                                     (take min_len status_data) ins outs tins touts)))))"

fun employee_loop ::
  "(string \<Rightarrow> exn + datetime option) \<Rightarrow> grid \<Rightarrow> string list \<Rightarrow> nat list
     \<Rightarrow> exn + structured_row list" where
  "employee_loop to_datetime df_raw hs [] = Inr []"
| "employee_loop to_datetime df_raw hs (i # emp_rows) =
     (case employee_block to_datetime df_raw hs i of
        Inl e \<Rightarrow> Inl e
      | Inr temp_df \<Rightarrow>
          (case employee_loop to_datetime df_raw hs emp_rows of
             Inl e \<Rightarrow> Inl e
           | Inr final_data \<Rightarrow> Inr (temp_df @ final_data)))"

text \<open>The part of \<^verbatim>\<open>restructure_attendance_data\<close> inside its outer \<^verbatim>\<open>try\<close>.\<close>

definition restructure_body ::
  "(string \<Rightarrow> exn + datetime option) \<Rightarrow> grid \<Rightarrow> exn + attendance_row list" where
  "restructure_body to_datetime df_raw =
     (case column0 df_raw of
        Inl e \<Rightarrow> Inl e
      | Inr col0 \<Rightarrow>
          let emp_rows = matching_rows (starts_with ''Employee:'') col0;
              days_row_index = index_max (matching_rows is_days col0)
          in if days_row_index = PyNone then Inr []
             else (case iloc_from_scalar df_raw days_row_index 2 of
                     Inl e \<Rightarrow> Inl e
                   | Inr day_headers_raw \<Rightarrow>
                       (case employee_loop to_datetime df_raw (map strip day_headers_raw) emp_rows of
                          Inl e \<Rightarrow> Inl e
                        | Inr df_structured \<Rightarrow>
                            let df_clean = filter (\<lambda>r. Status r = ''P'') df_structured;
                                df_clean = filter (\<lambda>r. Time_In r \<noteq> None \<or> Time_Out r \<noteq> None) df_clean
                            in Inr (map select_columns df_clean))))"

text \<open>
  \<^verbatim>\<open>st.error\<close> shows a message to the user; the messages shown are returned next to the
  frame. The outer handler catches every exception, reports it and returns an empty frame.
\<close>

datatype message = Severe_structural_error exn

definition restructure_attendance_data ::
  "(string \<Rightarrow> exn + datetime option) \<Rightarrow> grid \<Rightarrow> attendance_row list \<times> message list" where
  "restructure_attendance_data to_datetime df_raw =
     (case restructure_body to_datetime df_raw of
        Inl e \<Rightarrow> ([], [Severe_structural_error e])
      | Inr df \<Rightarrow> (df, []))"

section \<open>Classified records and the daily resolver\<close>

record classified_row = attendance_row +
  late_units :: int
  late_classification :: string
  is_morning_half_day :: int
  early_out_units :: int
  early_out_classification :: string
  is_evening_half_day :: int

text \<open>
  The flags are integers and are tested for truth, so a flag holds when it is not zero.
  \<^verbatim>\<open>get_day_classification\<close> returns at the first test that holds.
\<close>

definition get_day_classification :: "classified_row \<Rightarrow> string" where
  "get_day_classification row =
     (let is_m_half = is_morning_half_day row;
          is_e_half = is_evening_half_day row;
          is_1hr_leave = (early_out_units row = 1);
          units = late_units row
      in if is_m_half \<noteq> 0 \<and> is_e_half \<noteq> 0 then ''FULL Day Leave (Morn + Even Half)''
         else if is_m_half \<noteq> 0 then ''Half Day Leave (Morning IN)''
         else if is_e_half \<noteq> 0 then ''Half Day Leave (Evening OUT)''
         else if is_1hr_leave then ''1 Hour Leave (Early OUT)''
         else if units > 0 then str_int units @ '' x 15 Min Late''
         else if Time_In row = None \<or> Time_Out row = None then ''Incomplete Record''
         else ''On Time'')"

text \<open>
  Both reports attach the six computed columns to every row. The rule functions are only
  called on a time that is present; each call reads the wall clock, so the date read for the
  in-time and the date read for the out-time of a row are parameters.
\<close>

definition classify_row :: "date \<Rightarrow> date \<Rightarrow> attendance_row \<Rightarrow> classified_row" where
  "classify_row today_in today_out r =
     (let late = (case Time_In r of
                    Some x \<Rightarrow> calculate_late_status today_in (Some x)
                  | None \<Rightarrow> (0, ''Missing IN Time'', 0));
          early = (case Time_Out r of
                     Some x \<Rightarrow> calculate_early_out_status today_out (Some x)
                   | None \<Rightarrow> (0, ''Missing OUT Time'', 0))
      in \<lparr>Employee_Name = Employee_Name r, Date_Day = Date_Day r,
          Time_In = Time_In r, Time_Out = Time_Out r,
          late_units = fst late, late_classification = fst (snd late),
          is_morning_half_day = snd (snd late),
          early_out_units = fst early, early_out_classification = fst (snd early),
          is_evening_half_day = snd (snd early)\<rparr>)"

text \<open>
  A frame is classified row by row; \<open>clock_in i\<close> and \<open>clock_out i\<close> are the dates the wall
  clock shows when the in-time and the out-time of the row at position \<open>i\<close> are classified.
\<close>

definition classify_frame ::
  "(nat \<Rightarrow> date) \<Rightarrow> (nat \<Rightarrow> date) \<Rightarrow> attendance_row list \<Rightarrow> classified_row list" where
  "classify_frame clock_in clock_out df =
     map (\<lambda>(i, r). classify_row (clock_in i) (clock_out i) r) (enumerate 0 df)"

section \<open>The report aggregators\<close>

record report_detail = attendance_row +
  Day_Classification :: string

definition detail_of :: "classified_row \<Rightarrow> report_detail" where
  "detail_of r =
     \<lparr>Employee_Name = Employee_Name r, Date_Day = Date_Day r,
      Time_In = Time_In r, Time_Out = Time_Out r,
      Day_Classification = get_day_classification r\<rparr>"

text \<open>
  \<^verbatim>\<open>generate_employee_report\<close> (per-employee mode). The summary is the list of the three
  (category, count) pairs; without rows for the employee the function returns its message.
\<close>

definition generate_employee_report ::
  "(nat \<Rightarrow> date) \<Rightarrow> (nat \<Rightarrow> date) \<Rightarrow> attendance_row list \<Rightarrow> string
     \<Rightarrow> string + ((string \<times> int) list \<times> report_detail list)" where
  "generate_employee_report clock_in clock_out df_processed employee_name =
     (let employee_data = filter (\<lambda>r. Employee_Name r = employee_name) df_processed
      in if employee_data = [] then Inl ''No data found for this employee.''
         else
           let employee_data = classify_frame clock_in clock_out employee_data;
               total_late_units = sum_list (map late_units employee_data);
               total_1_hr_leaves = int (length (filter (\<lambda>r. early_out_units r = 1) employee_data));
               total_half_day_incidents =
                 sum_list (map is_morning_half_day employee_data)
                 + sum_list (map is_evening_half_day employee_data);
               summary = [(''Total 15 Min Late Units'', total_late_units),
                          (''Total Half Day Incidents'', total_half_day_incidents),
                          (''Total 1 Hour Leaves'', total_1_hr_leaves)]
           in Inr (summary, map detail_of employee_data))"

text \<open>
  \<^verbatim>\<open>generate_consolidated_report\<close> (consolidated mode) adds two derived flags to every
  row, then groups by employee name; \<^verbatim>\<open>groupby\<close> lists the groups in the order of their
  keys. For an empty frame it returns an empty frame.
\<close>

record calculated_row = classified_row +
  is_half_day :: int
  is_one_hour_leave :: int

definition add_flags :: "classified_row \<Rightarrow> calculated_row" where
  "add_flags r =
     (let half = (if is_morning_half_day r = 1 \<or> is_evening_half_day r = 1 then 1 else 0);
          one_hour = (if half = 0 \<and> early_out_units r = 1 then 1 else 0)
      in \<lparr>Employee_Name = Employee_Name r, Date_Day = Date_Day r,
          Time_In = Time_In r, Time_Out = Time_Out r,
          late_units = late_units r, late_classification = late_classification r,
          is_morning_half_day = is_morning_half_day r,
          early_out_units = early_out_units r,
          early_out_classification = early_out_classification r,
          is_evening_half_day = is_evening_half_day r,
          is_half_day = half, is_one_hour_leave = one_hour\<rparr>)"

record summary_row =
  Employee :: string
  Late_Units_15_Min :: int
  Half_Day_Incidents :: int
  One_Hour_Leaves :: int

definition group_sums :: "calculated_row list \<Rightarrow> string \<Rightarrow> summary_row" where
  "group_sums df_calculated n =
     (let grp = filter (\<lambda>r. Employee_Name r = n) df_calculated
      in \<lparr>Employee = n,
          Late_Units_15_Min = sum_list (map late_units grp),
          Half_Day_Incidents = sum_list (map is_half_day grp),
          One_Hour_Leaves = sum_list (map is_one_hour_leave grp)\<rparr>)"

datatype consolidated = Empty_frame | Report "summary_row list" "calculated_row list"

definition generate_consolidated_report ::
  "(nat \<Rightarrow> date) \<Rightarrow> (nat \<Rightarrow> date) \<Rightarrow> attendance_row list \<Rightarrow> consolidated" where
  "generate_consolidated_report clock_in clock_out df_processed =
     (if df_processed = [] then Empty_frame
      else
        let df_calculated = map add_flags (classify_frame clock_in clock_out df_processed);
            consolidated_summary =
              map (group_sums df_calculated)
                  (sort (remdups (map Employee_Name df_calculated)))
        in Report consolidated_summary df_calculated)"

section \<open>The two pipelines\<close>

text \<open>
  What the two versions of \<^verbatim>\<open>app\<close> compute from an uploaded grid: the per-employee
  reports of every employee in the order of the names, or the consolidated report; nothing
  is reported for an empty frame. In the per-employee version the clocks are also indexed
  by the position of the employee.
\<close>

definition employee_reports ::
  "(string \<Rightarrow> exn + datetime option) \<Rightarrow> (nat \<Rightarrow> nat \<Rightarrow> date) \<Rightarrow> (nat \<Rightarrow> nat \<Rightarrow> date) \<Rightarrow> grid
     \<Rightarrow> (string \<times> (string + ((string \<times> int) list \<times> report_detail list))) list" where
  "employee_reports to_datetime clock_in clock_out df_raw =
     (let df_processed = fst (restructure_attendance_data to_datetime df_raw);
          employee_list = sort (remdups (map Employee_Name df_processed))
      in map (\<lambda>(k, employee).
                (employee, generate_employee_report (clock_in k) (clock_out k) df_processed employee))
             (enumerate 0 employee_list))"

definition consolidated_report ::
  "(string \<Rightarrow> exn + datetime option) \<Rightarrow> (nat \<Rightarrow> date) \<Rightarrow> (nat \<Rightarrow> date) \<Rightarrow> grid
     \<Rightarrow> consolidated" where
  "consolidated_report to_datetime clock_in clock_out df_raw =
     (let df_processed = fst (restructure_attendance_data to_datetime df_raw)
      in if df_processed = [] then Empty_frame
         else generate_consolidated_report clock_in clock_out df_processed)"

section \<open>Notions used to state the properties\<close>

text \<open>
  Python compares times of day as the tuples \<^verbatim>\<open>(hour, minute, second, microsecond)\<close>;
  \<open>time_us\<close> is the number of microseconds since midnight and \<open>minutes_of\<close> the number of
  minutes since midnight, a fraction when the time carries seconds.
\<close>

definition time_le :: "time \<Rightarrow> time \<Rightarrow> bool" where
  "time_le a b = lex_le (time_fields a) (time_fields b)"

definition time_us :: "time \<Rightarrow> int" where
  "time_us t = seconds_of_day t * 1000000 + int (microsecond t)"

definition minutes_of :: "time \<Rightarrow> rat" where
  "minutes_of t = of_nat (hour t) * 60 + of_nat (minute t) + of_nat (second t) / 60
                   + of_nat (microsecond t) / 60000000"

text \<open>A classified record with the given flags, units and times, to run the resolver on.\<close>

definition example_row :: "int \<Rightarrow> int \<Rightarrow> int \<Rightarrow> int \<Rightarrow> time option \<Rightarrow> time option \<Rightarrow> classified_row" where
  "example_row m e eo lu tin tout =
     \<lparr>Employee_Name = ''Asha'', Date_Day = ''1 Mon'', Time_In = tin, Time_Out = tout,
      late_units = lu, late_classification = '''', is_morning_half_day = m,
      early_out_units = eo, early_out_classification = '''', is_evening_half_day = e\<rparr>"

text \<open>The summary table of a consolidated report; an empty frame has no rows.\<close>

definition summary_rows :: "consolidated \<Rightarrow> summary_row list" where
  "summary_rows c = (case c of Empty_frame \<Rightarrow> [] | Report s _ \<Rightarrow> s)"

text \<open>
  A frame of three records: one with both half days, one that is two units late, one with
  a morning half day and a one-hour leave.
\<close>

definition example_frame :: "attendance_row list" where
  "example_frame =
     [\<lparr>Employee_Name = ''Asha'', Date_Day = ''1 Mon'',
       Time_In = Some (mk_time 11 0), Time_Out = Some (mk_time 16 0)\<rparr>,
      \<lparr>Employee_Name = ''Bala'', Date_Day = ''1 Mon'',
       Time_In = Some (mk_time 9 40), Time_Out = Some (mk_time 17 50)\<rparr>,
      \<lparr>Employee_Name = ''Asha'', Date_Day = ''2 Tue'',
       Time_In = Some (mk_time 11 0), Time_Out = Some (mk_time 17 0)\<rparr>]"

text \<open>
  A grid with the day header and one employee block, the same grid without its day header,
  and the same grid with a name cell that ends with the colon.
\<close>

definition example_grid :: grid where
  "example_grid =
     [[''Days'', '''', ''1 Mon'', ''2 Tue'', ''3 Wed''],
      [''Employee:'', '''', '''', ''101 : Asha'', ''''],
      [''Status'', '''', ''P'', ''P'', ''A''],
      [''InTime'', '''', ''09:10'', ''11:00:30'', ''''],
      [''OutTime'', '''', ''17:50'', ''16:00'', '''']]"

definition grid_without_days :: grid where
  "grid_without_days = tl example_grid"

definition grid_name_missing :: grid where
  "grid_name_missing = example_grid[1 := [''Employee:'', '''', '''', ''101 :'', '''']]"

text \<open>
  What \<^verbatim>\<open>to_time_safe\<close> keeps of the result of the pandas parser: the time of day of a
  timestamp, and nothing when the parser raises or returns \<^verbatim>\<open>NaT\<close>.
\<close>

definition parsed_time :: "exn + datetime option \<Rightarrow> time option" where
  "parsed_time res =
     (case res of Inl e \<Rightarrow> None | Inr None \<Rightarrow> None | Inr (Some dt_obj) \<Rightarrow> Some (snd dt_obj))"

text \<open>
  A stand-in for the pandas parser on the word \<^verbatim>\<open>now\<close>, which pandas reads as the time
  the wall clock shows; and a grid whose only in-time is that word.
\<close>

definition to_datetime_now :: "datetime \<Rightarrow> string \<Rightarrow> exn + datetime option" where
  "to_datetime_now clock s = (if s = ''now'' then Inr (Some clock) else Inr None)"

definition grid_now :: grid where
  "grid_now =
     [[''Days'', '''', ''1 Mon'', ''2 Tue''],
      [''Employee:'', '''', '''', ''101 : Asha''],
      [''Status'', '''', ''P'', ''A''],
      [''InTime'', '''', ''now'', ''''],
      [''OutTime'', '''', ''17:50'', '''']]"

section \<open>Times of day without the date\<close>

lemmas policy_defs =
  SHIFT_START_def SHIFT_END_def LATE_UNIT_MINUTES_def HALF_DAY_START_TIME_NEW_def
  HALF_DAY_END_TIME_NEW_def EVENING_HALF_DAY_TIME_def ONE_HOUR_LEAVE_START_TIME_def
  ONE_HOUR_LEAVE_END_TIME_def

lemma minutes_of_time_us: "minutes_of t = of_int (time_us t) / 60000000"
  by (simp add: minutes_of_def time_us_def seconds_of_day_def field_simps)

lemma datetime_le_same_date: "datetime_le (combine d a) (combine d b) = time_le a b"
  by (simp add: datetime_le_def datetime_fields_def combine_def time_le_def)

lemma datetime_ge_same_date: "datetime_ge (combine d a) (combine d b) = time_le b a"
  by (simp add: datetime_ge_def datetime_fields_def combine_def time_le_def)

lemma datetime_sub_same_date:
  "datetime_sub (combine d a) (combine d b) = time_us a - time_us b"
  by (simp add: datetime_sub_def combine_def time_us_def algebra_simps)

lemma time_le_time_us:
  assumes "valid_time a" "valid_time b"
  shows "time_le a b \<longleftrightarrow> time_us a \<le> time_us b"
  using assms
  unfolding valid_time_def time_le_def time_fields_def time_us_def seconds_of_day_def
  by simp linarith

lemma time_le_minutes:
  assumes "valid_time a" "valid_time b"
  shows "time_le a b \<longleftrightarrow> minutes_of a \<le> minutes_of b"
  using assms by (simp add: time_le_time_us minutes_of_time_us divide_le_cancel)

lemma late_minutes_same_date:
  "total_seconds (datetime_sub (combine d a) (combine d b)) / 60 = minutes_of a - minutes_of b"
  by (simp add: datetime_sub_same_date total_seconds_def minutes_of_time_us diff_divide_distrib)

lemma valid_mk_time: "h < 24 \<Longrightarrow> m < 60 \<Longrightarrow> valid_time (mk_time h m)"
  by (simp add: valid_time_def mk_time_def)

lemma minutes_of_mk_time: "minutes_of (mk_time h m) = of_nat h * 60 + of_nat m"
  by (simp add: minutes_of_def mk_time_def)

text \<open>The rule functions without the date: what they compute from the time of day alone.\<close>

lemma calculate_late_status_time:
  "calculate_late_status today (Some t) =
     (if time_le (mk_time 10 16) t \<and> time_le t (mk_time 13 30)
      then (0, ''Half Day Leave (Morning IN)'', 1)
      else if minutes_of t - minutes_of (mk_time 9 15) \<le> 0 then (0, ''On Time'', 0)
      else (\<lceil>(minutes_of t - minutes_of (mk_time 9 15)) / 15\<rceil>,
            str_int \<lceil>(minutes_of t - minutes_of (mk_time 9 15)) / 15\<rceil> @ '' x 15 Min Late'', 0))"
  unfolding calculate_late_status_def Let_def policy_defs late_minutes_same_date
    datetime_ge_same_date datetime_le_same_date
  by simp

lemma calculate_early_out_status_time:
  "calculate_early_out_status today (Some t) =
     (if minutes_of (mk_time 17 45) - minutes_of t \<le> 0 then (0, ''On Time/Overtime'', 0)
      else if time_le (mk_time 16 46) t \<and> time_le t (mk_time 17 44) then (1, ''1 Hour Leave'', 0)
      else if time_le t (mk_time 16 45) then (0, ''Half Day Leave (Evening OUT)'', 1)
      else (0, ''Other Early Out'', 0))"
  unfolding calculate_early_out_status_def Let_def policy_defs late_minutes_same_date
    datetime_ge_same_date datetime_le_same_date
  by simp

lemma calculate_late_status_minutes:
  assumes "valid_time t"
  shows "calculate_late_status today (Some t) =
     (if 616 \<le> minutes_of t \<and> minutes_of t \<le> 810 then (0, ''Half Day Leave (Morning IN)'', 1)
      else if minutes_of t \<le> 555 then (0, ''On Time'', 0)
      else (\<lceil>(minutes_of t - 555) / 15\<rceil>,
            str_int \<lceil>(minutes_of t - 555) / 15\<rceil> @ '' x 15 Min Late'', 0))"
  using assms unfolding calculate_late_status_time
  by (simp add: time_le_minutes valid_mk_time minutes_of_mk_time)

lemma calculate_early_out_status_minutes:
  assumes "valid_time t"
  shows "calculate_early_out_status today (Some t) =
     (if 1065 \<le> minutes_of t then (0, ''On Time/Overtime'', 0)
      else if 1006 \<le> minutes_of t \<and> minutes_of t \<le> 1064 then (1, ''1 Hour Leave'', 0)
      else if minutes_of t \<le> 1005 then (0, ''Half Day Leave (Evening OUT)'', 1)
      else (0, ''Other Early Out'', 0))"
  using assms unfolding calculate_early_out_status_time
  by (simp add: time_le_minutes valid_mk_time minutes_of_mk_time)

lemma ceiling_one_fifteenth: "\<lceil>(1::rat) / 15\<rceil> = 1"
  by (rule ceiling_unique) simp_all

lemma ceiling_sixteen_fifteenths: "\<lceil>(16::rat) / 15\<rceil> = 2"
  by (rule ceiling_unique) simp_all

lemma str_int_1: "str_int 1 = ''1''"
  by (simp add: str_int_def str_nat.simps digit_char_def)

lemma str_int_2: "str_int 2 = ''2''"
  by (simp add: str_int_def str_nat.simps digit_char_def)

section \<open>The float divisions\<close>

text \<open>
  The program divides floats three times: microseconds by a million, seconds by 60, minutes
  by 15. Each division is rounded to the nearest float, so the float differs from the exact
  quotient by a relative error far below 2 to the power -50, it has the sign of the exact quotient,
  and it is the exact quotient when the late time is a whole number of quarters of an hour.
  Any value that close to the exact quotient has the same ceiling: a late time that is not a
  whole number of quarters is at least one microsecond away from one. So the exact rational
  arithmetic of the model gives the late units of the program.
\<close>

lemma ceiling_stable:
  fixes n :: int and y :: rat
  assumes n: "0 < n" "n < 86400000000"
    and close: "\<bar>y - of_int n / 900000000\<bar> \<le> of_int n / 900000000 / 2 ^ 50"
    and exact: "900000000 dvd n \<Longrightarrow> y = of_int n / 900000000"
  shows "\<lceil>y\<rceil> = \<lceil>of_int n / 900000000 :: rat\<rceil>"
proof (cases "900000000 dvd n")
  case True
  then have "y = of_int n / 900000000" by (rule exact)
  then show ?thesis by (simp only:)
next
  case False
  define q where "q = n div 900000000"
  define r where "r = n mod 900000000"
  have nqr: "n = q * 900000000 + r"
    by (simp add: q_def r_def)
  have r: "0 < r" "r < 900000000"
    using False by (auto simp: r_def mod_eq_0_iff_dvd intro: le_neq_trans)
  let ?x = "of_int n / 900000000 :: rat"
  have x: "?x = of_int q + of_int r / 900000000"
    by (simp add: nqr add_divide_distrib)
  have lo: "of_int q + 1 / 900000000 \<le> ?x"
    unfolding x using r(1) by (simp add: divide_le_cancel)
  have hi: "?x \<le> of_int q + 1 - 1 / 900000000"
  proof -
    have "r \<le> 899999999" using r(2) by simp
    then have "(of_int r :: rat) \<le> 899999999" by (metis of_int_le_iff of_int_numeral)
    then show ?thesis unfolding x by (simp add: field_simps)
  qed
  have bound: "?x / 2 ^ 50 < 1 / 900000000"
  proof -
    have "(of_int n :: rat) < 86400000000"
      using n(2) by (metis of_int_less_iff of_int_numeral)
    then have "?x < 96" by (simp add: field_simps)
    then have "?x / 2 ^ 50 < 96 / 2 ^ 50" by (simp add: divide_strict_right_mono)
    also have "(96 :: rat) / 2 ^ 50 < 1 / 900000000" by simp
    finally show ?thesis .
  qed
  from close bound have d: "\<bar>y - ?x\<bar> < 1 / 900000000" by linarith
  have y: "of_int q < y" "y \<le> of_int q + 1"
    using d lo hi by linarith+
  have cy: "\<lceil>y\<rceil> = q + 1"
    by (rule ceiling_unique) (use y in simp_all)
  have xb: "of_int q < ?x" "?x \<le> of_int q + 1"
    using lo hi by linarith+
  have cx: "\<lceil>?x\<rceil> = q + 1"
    by (rule ceiling_unique) (use xb in simp_all)
  from cy cx show ?thesis by simp
qed

lemma late_quotient_microseconds:
  "(minutes_of t - 555) / 15 = of_int (time_us t - 33300000000) / 900000000"
  by (simp add: minutes_of_time_us field_simps)

lemma late_units_rounding_stable:
  assumes "valid_time t" and "\<not> time_le t (mk_time 9 15)"
    and close: "\<bar>y - (minutes_of t - 555) / 15\<bar> \<le> (minutes_of t - 555) / 15 / 2 ^ 50"
    and exact: "900000000 dvd (time_us t - 33300000000) \<Longrightarrow> y = (minutes_of t - 555) / 15"
  shows "\<lceil>y\<rceil> = \<lceil>(minutes_of t - 555) / 15\<rceil>"
proof -
  let ?n = "time_us t - 33300000000"
  from assms(1,2) have "time_us (mk_time 9 15) < time_us t"
    by (simp add: time_le_time_us valid_mk_time)
  then have pos: "0 < ?n"
    by (simp add: time_us_def mk_time_def seconds_of_day_def)
  from assms(1) have "time_us t < 86400000000"
    unfolding valid_time_def time_us_def seconds_of_day_def by simp
  then have less: "?n < 86400000000"
    by simp
  show ?thesis
    using ceiling_stable [OF pos less, of y] close exact
    unfolding late_quotient_microseconds by blast
qed

section \<open>The in-time rule\<close>

text \<open>
  C1. \<^verbatim>\<open>calculate_late_status\<close> agrees with the reference definition of \<open>classify_in\<close>:
  every time of day from 10:16 to 13:30, both ends included, gives
  \<open>(0, "Half Day Leave (Morning IN)", 1)\<close> and no late units; every time up to 09:15 gives
  \<open>(0, "On Time", 0)\<close>; every other time after 09:15 gives the number of minutes after 09:15
  divided by 15 and rounded up, the label made of that number and the flag 0. So 09:15 is on
  time, 09:16 and 09:30 are one unit late and 09:31 is two units late.
\<close>

theorem C1_classify_in_reference:
  assumes "valid_time t"
  shows
    "(time_le (mk_time 10 16) t \<and> time_le t (mk_time 13 30) \<longrightarrow>
        calculate_late_status today (Some t) = (0, ''Half Day Leave (Morning IN)'', 1))
     \<and> (time_le t (mk_time 9 15) \<longrightarrow> calculate_late_status today (Some t) = (0, ''On Time'', 0))
     \<and> (\<not> time_le t (mk_time 9 15) \<and> \<not> (time_le (mk_time 10 16) t \<and> time_le t (mk_time 13 30)) \<longrightarrow>
        calculate_late_status today (Some t) =
          (\<lceil>(minutes_of t - minutes_of (mk_time 9 15)) / 15\<rceil>,
           str_int \<lceil>(minutes_of t - minutes_of (mk_time 9 15)) / 15\<rceil> @ '' x 15 Min Late'', 0))
     \<and> calculate_late_status today (Some (mk_time 9 15)) = (0, ''On Time'', 0)
     \<and> calculate_late_status today (Some (mk_time 9 16)) = (1, ''1 x 15 Min Late'', 0)
     \<and> calculate_late_status today (Some (mk_time 9 30)) = (1, ''1 x 15 Min Late'', 0)
     \<and> calculate_late_status today (Some (mk_time 9 31)) = (2, ''2 x 15 Min Late'', 0)"
proof -
  have window: "time_le (mk_time 10 16) t \<and> time_le t (mk_time 13 30) \<longleftrightarrow>
      616 \<le> minutes_of t \<and> minutes_of t \<le> 810"
    using assms by (simp add: time_le_minutes valid_mk_time minutes_of_mk_time)
  have start: "time_le t (mk_time 9 15) \<longleftrightarrow> minutes_of t \<le> 555"
    using assms by (simp add: time_le_minutes valid_mk_time minutes_of_mk_time)
  have general: "calculate_late_status today (Some t) =
     (if 616 \<le> minutes_of t \<and> minutes_of t \<le> 810 then (0, ''Half Day Leave (Morning IN)'', 1)
      else if minutes_of t \<le> 555 then (0, ''On Time'', 0)
      else (\<lceil>(minutes_of t - 555) / 15\<rceil>,
            str_int \<lceil>(minutes_of t - 555) / 15\<rceil> @ '' x 15 Min Late'', 0))"
    by (rule calculate_late_status_minutes [OF assms])
  have m915: "minutes_of (mk_time 9 15) = 555"
    by (simp add: minutes_of_mk_time)
  have c1: "calculate_late_status today (Some (mk_time 9 15)) = (0, ''On Time'', 0)"
    by (simp add: calculate_late_status_minutes valid_mk_time minutes_of_mk_time)
  have c2: "calculate_late_status today (Some (mk_time 9 16)) = (1, ''1 x 15 Min Late'', 0)"
    by (simp add: calculate_late_status_minutes valid_mk_time minutes_of_mk_time str_int_1
        ceiling_one_fifteenth)
  have c3: "calculate_late_status today (Some (mk_time 9 30)) = (1, ''1 x 15 Min Late'', 0)"
    by (simp add: calculate_late_status_minutes valid_mk_time minutes_of_mk_time str_int_1)
  have c4: "calculate_late_status today (Some (mk_time 9 31)) = (2, ''2 x 15 Min Late'', 0)"
    by (simp add: calculate_late_status_minutes valid_mk_time minutes_of_mk_time str_int_2
        ceiling_sixteen_fifteenths)
  have half: "time_le (mk_time 10 16) t \<and> time_le t (mk_time 13 30) \<longrightarrow>
        calculate_late_status today (Some t) = (0, ''Half Day Leave (Morning IN)'', 1)"
    unfolding window general by simp
  have on_time: "time_le t (mk_time 9 15) \<longrightarrow> calculate_late_status today (Some t) = (0, ''On Time'', 0)"
    unfolding start general by simp
  have late: "\<not> time_le t (mk_time 9 15) \<and> \<not> (time_le (mk_time 10 16) t \<and> time_le t (mk_time 13 30)) \<longrightarrow>
        calculate_late_status today (Some t) =
          (\<lceil>(minutes_of t - minutes_of (mk_time 9 15)) / 15\<rceil>,
           str_int \<lceil>(minutes_of t - minutes_of (mk_time 9 15)) / 15\<rceil> @ '' x 15 Min Late'', 0)"
    unfolding window start general m915 by simp
  from half on_time late c1 c2 c3 c4 show ?thesis by blast
qed

text \<open>
  The three cases of C1 at 11:00, at 08:50 and at 13:31, which is 256 minutes after 09:15 and
  so 18 units late.
\<close>

theorem C1_witness:
  "valid_time (mk_time 11 0) \<and> time_le (mk_time 10 16) (mk_time 11 0)
     \<and> time_le (mk_time 11 0) (mk_time 13 30)
     \<and> calculate_late_status \<lparr>year = 2026, month = 11, day = 4\<rparr> (Some (mk_time 11 0))
         = (0, ''Half Day Leave (Morning IN)'', 1)
   \<and> valid_time (mk_time 8 50) \<and> time_le (mk_time 8 50) (mk_time 9 15)
     \<and> calculate_late_status \<lparr>year = 2026, month = 11, day = 4\<rparr> (Some (mk_time 8 50))
         = (0, ''On Time'', 0)
   \<and> valid_time (mk_time 13 31) \<and> \<not> time_le (mk_time 13 31) (mk_time 9 15)
     \<and> \<not> (time_le (mk_time 10 16) (mk_time 13 31) \<and> time_le (mk_time 13 31) (mk_time 13 30))
     \<and> calculate_late_status \<lparr>year = 2026, month = 11, day = 4\<rparr> (Some (mk_time 13 31))
         = (18, ''18 x 15 Min Late'', 0)"
proof -
  have v: "valid_time (mk_time 11 0)" "valid_time (mk_time 8 50)" "valid_time (mk_time 13 31)"
    by (simp_all add: valid_mk_time)
  have le: "time_le (mk_time 10 16) (mk_time 11 0)" "time_le (mk_time 11 0) (mk_time 13 30)"
      "time_le (mk_time 8 50) (mk_time 9 15)" "\<not> time_le (mk_time 13 31) (mk_time 9 15)"
      "\<not> time_le (mk_time 13 31) (mk_time 13 30)"
    by (simp_all add: time_le_def time_fields_def mk_time_def)
  have units: "\<lceil>(minutes_of (mk_time 13 31) - minutes_of (mk_time 9 15)) / 15\<rceil> = 18"
    by (simp add: minutes_of_mk_time) (rule ceiling_unique, simp_all)
  have label: "str_int 18 = ''18''"
    by (simp add: str_int_def str_nat.simps digit_char_def)
  show ?thesis
    using C1_classify_in_reference [OF v(1), of "\<lparr>year = 2026, month = 11, day = 4\<rparr>"]
      C1_classify_in_reference [OF v(2), of "\<lparr>year = 2026, month = 11, day = 4\<rparr>"]
      C1_classify_in_reference [OF v(3), of "\<lparr>year = 2026, month = 11, day = 4\<rparr>"]
      v le units label
    by simp
qed

section \<open>The strict parse and whole minutes\<close>

lemma strptime_HM_whole_minute:
  assumes "strptime_HM s = Inr t"
  shows "second t = 0 \<and> microsecond t = 0"
  using assms
  by (auto simp: strptime_HM_def mk_time_def split: option.splits list.splits if_splits prod.splits)

lemma digit_val_less: "is_digit c \<Longrightarrow> digit_val c < 10"
  by (auto simp: is_digit_def digit_val_def)

lemma match_H_less: "match_H s = Some (h, r) \<Longrightarrow> h < 24"
  by (induction s rule: match_H.induct)
     (auto simp: digit_val_def is_digit_def split: if_splits)

lemma match_M_less: "match_M s = Some (m, r) \<Longrightarrow> m < 60"
  by (induction s rule: match_M.induct)
     (auto simp: digit_val_def is_digit_def split: if_splits)

lemma strptime_HM_valid:
  assumes "strptime_HM s = Inr t"
  shows "valid_time t"
  using assms
  by (auto simp: strptime_HM_def intro!: valid_mk_time dest: match_H_less match_M_less
      split: option.splits list.splits if_splits prod.splits)

lemma strptime_HM_error: "strptime_HM s = Inl e \<Longrightarrow> e = ValueError"
  by (auto simp: strptime_HM_def split: option.splits list.splits if_splits prod.splits)

lemma whole_minute_minutes:
  assumes "second t = 0" "microsecond t = 0"
  shows "minutes_of t = of_nat (hour t * 60 + minute t)"
  using assms by (simp add: minutes_of_def)

section \<open>The out-time rule\<close>

text \<open>
  C2. \<^verbatim>\<open>calculate_early_out_status\<close> at the boundaries: an out-time of exactly 16:45 gives
  \<open>(0, "Half Day Leave (Evening OUT)", 1)\<close>; exactly 16:46 and exactly 17:44 each give
  \<open>(1, "1 Hour Leave", 0)\<close>; 17:45 and every later time give \<open>(0, "On Time/Overtime", 0)\<close>.
  The test of the one-hour-leave window comes before the test of the evening half day: every
  time inside the window gets the one-hour leave.
\<close>

theorem C2_classify_out_boundaries:
  "calculate_early_out_status today (Some (mk_time 16 45)) = (0, ''Half Day Leave (Evening OUT)'', 1)
   \<and> calculate_early_out_status today (Some (mk_time 16 46)) = (1, ''1 Hour Leave'', 0)
   \<and> calculate_early_out_status today (Some (mk_time 17 44)) = (1, ''1 Hour Leave'', 0)
   \<and> calculate_early_out_status today (Some (mk_time 17 45)) = (0, ''On Time/Overtime'', 0)
   \<and> (valid_time t \<and> time_le (mk_time 17 45) t \<longrightarrow>
        calculate_early_out_status today (Some t) = (0, ''On Time/Overtime'', 0))
   \<and> (valid_time t \<and> time_le (mk_time 16 46) t \<and> time_le t (mk_time 17 44) \<longrightarrow>
        calculate_early_out_status today (Some t) = (1, ''1 Hour Leave'', 0))"
proof -
  have b1: "calculate_early_out_status today (Some (mk_time 16 45)) = (0, ''Half Day Leave (Evening OUT)'', 1)"
    by (simp add: calculate_early_out_status_minutes valid_mk_time minutes_of_mk_time)
  have b2: "calculate_early_out_status today (Some (mk_time 16 46)) = (1, ''1 Hour Leave'', 0)"
    by (simp add: calculate_early_out_status_minutes valid_mk_time minutes_of_mk_time)
  have b3: "calculate_early_out_status today (Some (mk_time 17 44)) = (1, ''1 Hour Leave'', 0)"
    by (simp add: calculate_early_out_status_minutes valid_mk_time minutes_of_mk_time)
  have b4: "calculate_early_out_status today (Some (mk_time 17 45)) = (0, ''On Time/Overtime'', 0)"
    by (simp add: calculate_early_out_status_minutes valid_mk_time minutes_of_mk_time)
  have later: "calculate_early_out_status today (Some t) = (0, ''On Time/Overtime'', 0)"
    if "valid_time t" "time_le (mk_time 17 45) t"
    using that
    by (simp add: calculate_early_out_status_minutes time_le_minutes valid_mk_time minutes_of_mk_time)
  have window: "calculate_early_out_status today (Some t) = (1, ''1 Hour Leave'', 0)"
    if "valid_time t" "time_le (mk_time 16 46) t" "time_le t (mk_time 17 44)"
    using that
    by (simp add: calculate_early_out_status_minutes time_le_minutes valid_mk_time minutes_of_mk_time)
  from b1 b2 b3 b4 later window show ?thesis by blast
qed

text \<open>C2 at 18:30, after the end of the shift, and at 17:00, inside the window.\<close>

theorem C2_witness:
  "valid_time (mk_time 18 30) \<and> time_le (mk_time 17 45) (mk_time 18 30)
   \<and> calculate_early_out_status \<lparr>year = 2026, month = 11, day = 4\<rparr> (Some (mk_time 18 30))
       = (0, ''On Time/Overtime'', 0)
   \<and> valid_time (mk_time 17 0) \<and> time_le (mk_time 16 46) (mk_time 17 0)
   \<and> time_le (mk_time 17 0) (mk_time 17 44)
   \<and> calculate_early_out_status \<lparr>year = 2026, month = 11, day = 4\<rparr> (Some (mk_time 17 0))
       = (1, ''1 Hour Leave'', 0)"
proof -
  have v: "valid_time (mk_time 18 30)" "valid_time (mk_time 17 0)"
    by (simp_all add: valid_mk_time)
  have le: "time_le (mk_time 17 45) (mk_time 18 30)" "time_le (mk_time 16 46) (mk_time 17 0)"
      "time_le (mk_time 17 0) (mk_time 17 44)"
    by (simp_all add: time_le_def time_fields_def mk_time_def)
  show ?thesis
    using C2_classify_out_boundaries [of "\<lparr>year = 2026, month = 11, day = 4\<rparr>" "mk_time 18 30"]
      C2_classify_out_boundaries [of "\<lparr>year = 2026, month = 11, day = 4\<rparr>" "mk_time 17 0"]
      v le
    by simp
qed

text \<open>
  C6 says that \<^verbatim>\<open>calculate_early_out_status\<close> never returns
  \<open>(0, "Other Early Out", 0)\<close>. It does for an out-time with seconds between two whole
  minutes: the cell \<^verbatim>\<open>16:45:30\<close> fails the strict parse, the permissive parse gives
  16:45:30, which is after 16:45:00 and before 16:46:00.
\<close>

theorem C6_counterexample:
  "to_time_safe (to_datetime_hms \<lparr>year = 2026, month = 11, day = 4\<rparr>) ''16:45:30''
     = Inr (Some \<lparr>hour = 16, minute = 45, second = 30, microsecond = 0\<rparr>)
   \<and> calculate_early_out_status \<lparr>year = 2026, month = 11, day = 4\<rparr>
        (Some \<lparr>hour = 16, minute = 45, second = 30, microsecond = 0\<rparr>)
     = (0, ''Other Early Out'', 0)"
proof -
  have parse: "to_time_safe (to_datetime_hms \<lparr>year = 2026, month = 11, day = 4\<rparr>) ''16:45:30''
     = Inr (Some \<lparr>hour = 16, minute = 45, second = 30, microsecond = 0\<rparr>)"
    by code_simp
  have v: "valid_time \<lparr>hour = 16, minute = 45, second = 30, microsecond = 0\<rparr>"
    by (simp add: valid_time_def)
  have m: "minutes_of \<lparr>hour = 16, minute = 45, second = 30, microsecond = 0\<rparr> = 2011 / 2"
    by (simp add: minutes_of_def)
  have "calculate_early_out_status \<lparr>year = 2026, month = 11, day = 4\<rparr>
        (Some \<lparr>hour = 16, minute = 45, second = 30, microsecond = 0\<rparr>)
     = (0, ''Other Early Out'', 0)"
    unfolding calculate_early_out_status_minutes [OF v] m by simp
  with parse show ?thesis by simp
qed

text \<open>
  C6, amended. \<^verbatim>\<open>calculate_early_out_status\<close> returns \<open>(0, "Other Early Out", 0)\<close>
  exactly for the out-times strictly between 16:45 and 16:46 or strictly between 17:44 and
  17:45. It never returns it for an out-time of whole minutes, so never for a time that the
  strict parse produced.
\<close>

theorem C6_other_early_out_exactly:
  assumes "valid_time t"
  shows "(calculate_early_out_status today (Some t) = (0, ''Other Early Out'', 0) \<longleftrightarrow>
            (\<not> time_le t (mk_time 16 45) \<and> \<not> time_le (mk_time 16 46) t)
            \<or> (\<not> time_le t (mk_time 17 44) \<and> \<not> time_le (mk_time 17 45) t))
         \<and> (second t = 0 \<and> microsecond t = 0 \<longrightarrow>
              calculate_early_out_status today (Some t) \<noteq> (0, ''Other Early Out'', 0))
         \<and> (strptime_HM s = Inr t \<longrightarrow>
              calculate_early_out_status today (Some t) \<noteq> (0, ''Other Early Out'', 0))"
proof -
  have iff: "calculate_early_out_status today (Some t) = (0, ''Other Early Out'', 0) \<longleftrightarrow>
            (\<not> time_le t (mk_time 16 45) \<and> \<not> time_le (mk_time 16 46) t)
            \<or> (\<not> time_le t (mk_time 17 44) \<and> \<not> time_le (mk_time 17 45) t)"
    using assms
    by (simp add: calculate_early_out_status_minutes time_le_minutes valid_mk_time
        minutes_of_mk_time)
  have whole: "calculate_early_out_status today (Some t) \<noteq> (0, ''Other Early Out'', 0)"
    if w: "second t = 0" "microsecond t = 0"
  proof -
    let ?n = "hour t * 60 + minute t"
    have m: "minutes_of t = of_nat ?n"
      by (rule whole_minute_minutes [OF w])
    have "?n \<le> 1005 \<or> (1006 \<le> ?n \<and> ?n \<le> 1064) \<or> 1065 \<le> ?n"
      by linarith
    then have "(of_nat ?n :: rat) \<le> of_nat 1005
        \<or> ((of_nat 1006 :: rat) \<le> of_nat ?n \<and> (of_nat ?n :: rat) \<le> of_nat 1064)
        \<or> (of_nat 1065 :: rat) \<le> of_nat ?n"
      unfolding of_nat_le_iff .
    then show ?thesis
      unfolding calculate_early_out_status_minutes [OF assms] m by auto
  qed
  have strict: "calculate_early_out_status today (Some t) \<noteq> (0, ''Other Early Out'', 0)"
    if "strptime_HM s = Inr t"
    using whole strptime_HM_whole_minute [OF that] by simp
  show ?thesis
  proof (intro conjI impI)
    show "calculate_early_out_status today (Some t) = (0, ''Other Early Out'', 0) \<longleftrightarrow>
            (\<not> time_le t (mk_time 16 45) \<and> \<not> time_le (mk_time 16 46) t)
            \<or> (\<not> time_le t (mk_time 17 44) \<and> \<not> time_le (mk_time 17 45) t)"
      by (rule iff)
  next
    assume "second t = 0 \<and> microsecond t = 0"
    then show "calculate_early_out_status today (Some t) \<noteq> (0, ''Other Early Out'', 0)"
      using whole by simp
  next
    assume "strptime_HM s = Inr t"
    then show "calculate_early_out_status today (Some t) \<noteq> (0, ''Other Early Out'', 0)"
      by (rule strict)
  qed
qed

text \<open>
  The amended C6 at 16:45, which the strict parse produces from \<^verbatim>\<open>16:45\<close>, and at
  17:44:30.
\<close>

theorem C6_witness:
  "valid_time (mk_time 16 45) \<and> second (mk_time 16 45) = 0 \<and> microsecond (mk_time 16 45) = 0
   \<and> strptime_HM ''16:45'' = Inr (mk_time 16 45)
   \<and> calculate_early_out_status \<lparr>year = 2026, month = 11, day = 4\<rparr> (Some (mk_time 16 45))
        \<noteq> (0, ''Other Early Out'', 0)
   \<and> valid_time \<lparr>hour = 17, minute = 44, second = 30, microsecond = 0\<rparr>
   \<and> \<not> time_le \<lparr>hour = 17, minute = 44, second = 30, microsecond = 0\<rparr> (mk_time 17 44)
   \<and> \<not> time_le (mk_time 17 45) \<lparr>hour = 17, minute = 44, second = 30, microsecond = 0\<rparr>
   \<and> calculate_early_out_status \<lparr>year = 2026, month = 11, day = 4\<rparr>
        (Some \<lparr>hour = 17, minute = 44, second = 30, microsecond = 0\<rparr>)
        = (0, ''Other Early Out'', 0)"
proof -
  have v: "valid_time (mk_time 16 45)"
      "valid_time \<lparr>hour = 17, minute = 44, second = 30, microsecond = 0\<rparr>"
    by (simp_all add: valid_time_def mk_time_def)
  have parse: "strptime_HM ''16:45'' = Inr (mk_time 16 45)"
    by (simp add: strptime_HM_def is_digit_def digit_val_def)
  have facts: "second (mk_time 16 45) = 0" "microsecond (mk_time 16 45) = 0"
      "\<not> time_le \<lparr>hour = 17, minute = 44, second = 30, microsecond = 0\<rparr> (mk_time 17 44)"
      "\<not> time_le (mk_time 17 45) \<lparr>hour = 17, minute = 44, second = 30, microsecond = 0\<rparr>"
    by (simp_all add: time_le_def time_fields_def mk_time_def)
  show ?thesis
    using C6_other_early_out_exactly [OF v(1), of "\<lparr>year = 2026, month = 11, day = 4\<rparr>" "''16:45''"]
      C6_other_early_out_exactly [OF v(2), of "\<lparr>year = 2026, month = 11, day = 4\<rparr>" "''16:45''"]
      v parse facts
    by (simp add: time_le_def time_fields_def mk_time_def)
qed

section \<open>In-times with seconds\<close>

lemma to_time_safe_permissive:
  assumes "strip s \<noteq> []" "strip s \<notin> set [''00:00'', ''nan'', ''NaT'']"
    and "strptime_HM (strip s) = Inl e" and "to_datetime (strip s) = Inr (Some dt_obj)"
  shows "to_time_safe to_datetime s = Inr (Some (snd dt_obj))"
  using assms strptime_HM_error [of "strip s" e]
  by (simp add: to_time_safe_def Let_def)

text \<open>
  C10. The permissive parse hands on the time of day of the timestamp it gets, seconds
  included, and \<^verbatim>\<open>calculate_late_status\<close> rounds the fraction of minutes up: every
  in-time strictly after 09:15:00 and outside the window from 10:16 to 13:30 has at least one
  late unit, the number of minutes after 09:15 divided by 15 and rounded up; 09:15:01 is one
  unit late.
\<close>

theorem C10_late_units_with_seconds:
  assumes "valid_time t"
  shows "(\<not> time_le t (mk_time 9 15)
            \<and> \<not> (time_le (mk_time 10 16) t \<and> time_le t (mk_time 13 30)) \<longrightarrow>
          1 \<le> fst (calculate_late_status today (Some t))
          \<and> fst (calculate_late_status today (Some t))
              = \<lceil>(minutes_of t - minutes_of (mk_time 9 15)) / 15\<rceil>)
       \<and> calculate_late_status today (Some \<lparr>hour = 9, minute = 15, second = 1, microsecond = 0\<rparr>)
           = (1, ''1 x 15 Min Late'', 0)
       \<and> (strip s \<noteq> [] \<and> strip s \<notin> set [''00:00'', ''nan'', ''NaT'']
            \<and> strptime_HM (strip s) = Inl ValueError
            \<and> to_datetime (strip s) = Inr (Some (d, t)) \<longrightarrow>
          to_time_safe to_datetime s = Inr (Some t))"
proof -
  have start: "time_le t (mk_time 9 15) \<longleftrightarrow> minutes_of t \<le> 555"
    using assms by (simp add: time_le_minutes valid_mk_time minutes_of_mk_time)
  have window: "time_le (mk_time 10 16) t \<and> time_le t (mk_time 13 30) \<longleftrightarrow>
      616 \<le> minutes_of t \<and> minutes_of t \<le> 810"
    using assms by (simp add: time_le_minutes valid_mk_time minutes_of_mk_time)
  have m915: "minutes_of (mk_time 9 15) = 555"
    by (simp add: minutes_of_mk_time)
  have late: "1 \<le> fst (calculate_late_status today (Some t))
          \<and> fst (calculate_late_status today (Some t))
              = \<lceil>(minutes_of t - minutes_of (mk_time 9 15)) / 15\<rceil>"
    if "\<not> time_le t (mk_time 9 15)"
      "\<not> (time_le (mk_time 10 16) t \<and> time_le t (mk_time 13 30))"
  proof -
    from that(1) have pos: "0 < (minutes_of t - 555) / 15"
      unfolding start by simp
    then have "0 < \<lceil>(minutes_of t - 555) / 15\<rceil>"
      by (simp only: ceiling_less_cancel less_ceiling_iff of_int_0)
    then have one: "1 \<le> \<lceil>(minutes_of t - 555) / 15\<rceil>"
      by linarith
    from that have res: "calculate_late_status today (Some t) =
        (\<lceil>(minutes_of t - 555) / 15\<rceil>,
         str_int \<lceil>(minutes_of t - 555) / 15\<rceil> @ '' x 15 Min Late'', 0)"
      unfolding start window calculate_late_status_minutes [OF assms] by simp
    from one show ?thesis unfolding res m915 by simp
  qed
  have v: "valid_time \<lparr>hour = 9, minute = 15, second = 1, microsecond = 0\<rparr>"
    by (simp add: valid_time_def)
  have m: "minutes_of \<lparr>hour = 9, minute = 15, second = 1, microsecond = 0\<rparr> = 555 + 1 / 60"
    by (simp add: minutes_of_def)
  have c: "\<lceil>(555 + 1 / 60 - 555) / (15::rat)\<rceil> = 1"
    by (rule ceiling_unique) simp_all
  have second: "calculate_late_status today (Some \<lparr>hour = 9, minute = 15, second = 1, microsecond = 0\<rparr>)
           = (1, ''1 x 15 Min Late'', 0)"
    unfolding calculate_late_status_minutes [OF v] m c by (simp add: str_int_1)
  have parse: "to_time_safe to_datetime s = Inr (Some t)"
    if "strip s \<noteq> []" "strip s \<notin> set [''00:00'', ''nan'', ''NaT'']"
      "strptime_HM (strip s) = Inl ValueError" "to_datetime (strip s) = Inr (Some (d, t))"
    using to_time_safe_permissive [of s ValueError to_datetime "(d, t)"] that by simp
  from late second parse show ?thesis by blast
qed

text \<open>C10 at the cell \<^verbatim>\<open>09:15:01\<close>.\<close>

theorem C10_witness:
  "valid_time \<lparr>hour = 9, minute = 15, second = 1, microsecond = 0\<rparr>
   \<and> \<not> time_le \<lparr>hour = 9, minute = 15, second = 1, microsecond = 0\<rparr> (mk_time 9 15)
   \<and> \<not> time_le (mk_time 10 16) \<lparr>hour = 9, minute = 15, second = 1, microsecond = 0\<rparr>
   \<and> strptime_HM (strip ''09:15:01'') = Inl ValueError
   \<and> to_datetime_hms \<lparr>year = 2026, month = 11, day = 4\<rparr> (strip ''09:15:01'')
       = Inr (Some (\<lparr>year = 2026, month = 11, day = 4\<rparr>,
                    \<lparr>hour = 9, minute = 15, second = 1, microsecond = 0\<rparr>))
   \<and> to_time_safe (to_datetime_hms \<lparr>year = 2026, month = 11, day = 4\<rparr>) ''09:15:01''
       = Inr (Some \<lparr>hour = 9, minute = 15, second = 1, microsecond = 0\<rparr>)
   \<and> 1 \<le> fst (calculate_late_status \<lparr>year = 2026, month = 11, day = 4\<rparr>
                  (Some \<lparr>hour = 9, minute = 15, second = 1, microsecond = 0\<rparr>))"
proof -
  have v: "valid_time \<lparr>hour = 9, minute = 15, second = 1, microsecond = 0\<rparr>"
    by (simp add: valid_time_def)
  have st: "strip ''09:15:01'' = ''09:15:01''"
    by (simp add: strip_def is_space_def)
  have cmp: "\<not> time_le \<lparr>hour = 9, minute = 15, second = 1, microsecond = 0\<rparr> (mk_time 9 15)"
      "\<not> time_le (mk_time 10 16) \<lparr>hour = 9, minute = 15, second = 1, microsecond = 0\<rparr>"
    by (simp_all add: time_le_def time_fields_def mk_time_def)
  have strict: "strptime_HM ''09:15:01'' = Inl ValueError"
    by (simp add: strptime_HM_def is_digit_def digit_val_def)
  have perm: "to_datetime_hms \<lparr>year = 2026, month = 11, day = 4\<rparr> ''09:15:01''
       = Inr (Some (\<lparr>year = 2026, month = 11, day = 4\<rparr>,
                    \<lparr>hour = 9, minute = 15, second = 1, microsecond = 0\<rparr>))"
    by (simp add: is_digit_def digit_val_def two_digits_def)
  show ?thesis
    using C10_late_units_with_seconds [OF v, of "\<lparr>year = 2026, month = 11, day = 4\<rparr>"
        "''09:15:01''" "to_datetime_hms \<lparr>year = 2026, month = 11, day = 4\<rparr>"
        "\<lparr>year = 2026, month = 11, day = 4\<rparr>"]
      v st cmp strict perm
    by simp
qed

section \<open>The daily resolver\<close>

text \<open>
  C3. \<^verbatim>\<open>get_day_classification\<close> gives every record one label of the ladder, the first
  whose test holds: a record with both half-day flags set is a full day leave, whatever its
  late units and early-out units are; then morning half day, evening half day, one-hour
  leave, the late units, incomplete record, on time. No combination of flags is left without
  a label.
\<close>

theorem C3_day_classification_ladder:
  "(is_morning_half_day r \<noteq> 0 \<and> is_evening_half_day r \<noteq> 0 \<longrightarrow>
      get_day_classification r = ''FULL Day Leave (Morn + Even Half)'')
   \<and> (is_morning_half_day r \<noteq> 0 \<and> is_evening_half_day r = 0 \<longrightarrow>
      get_day_classification r = ''Half Day Leave (Morning IN)'')
   \<and> (is_morning_half_day r = 0 \<and> is_evening_half_day r \<noteq> 0 \<longrightarrow>
      get_day_classification r = ''Half Day Leave (Evening OUT)'')
   \<and> (is_morning_half_day r = 0 \<and> is_evening_half_day r = 0 \<and> early_out_units r = 1 \<longrightarrow>
      get_day_classification r = ''1 Hour Leave (Early OUT)'')
   \<and> (is_morning_half_day r = 0 \<and> is_evening_half_day r = 0 \<and> early_out_units r \<noteq> 1
        \<and> 0 < late_units r \<longrightarrow>
      get_day_classification r = str_int (late_units r) @ '' x 15 Min Late'')
   \<and> (is_morning_half_day r = 0 \<and> is_evening_half_day r = 0 \<and> early_out_units r \<noteq> 1
        \<and> late_units r \<le> 0 \<and> (Time_In r = None \<or> Time_Out r = None) \<longrightarrow>
      get_day_classification r = ''Incomplete Record'')
   \<and> (is_morning_half_day r = 0 \<and> is_evening_half_day r = 0 \<and> early_out_units r \<noteq> 1
        \<and> late_units r \<le> 0 \<and> Time_In r \<noteq> None \<and> Time_Out r \<noteq> None \<longrightarrow>
      get_day_classification r = ''On Time'')
   \<and> get_day_classification r \<in>
       {''FULL Day Leave (Morn + Even Half)'', ''Half Day Leave (Morning IN)'',
        ''Half Day Leave (Evening OUT)'', ''1 Hour Leave (Early OUT)'',
        str_int (late_units r) @ '' x 15 Min Late'', ''Incomplete Record'', ''On Time''}"
  by (simp add: get_day_classification_def Let_def)

text \<open>
  One record for each step of the ladder; the first has both flags set, three late units and
  one early-out unit.
\<close>

theorem C3_witness:
  "get_day_classification (example_row 1 1 1 3 (Some (mk_time 11 0)) (Some (mk_time 16 0)))
     = ''FULL Day Leave (Morn + Even Half)''
   \<and> get_day_classification (example_row 1 0 1 3 (Some (mk_time 11 0)) (Some (mk_time 17 0)))
     = ''Half Day Leave (Morning IN)''
   \<and> get_day_classification (example_row 0 1 0 3 (Some (mk_time 9 40)) (Some (mk_time 16 0)))
     = ''Half Day Leave (Evening OUT)''
   \<and> get_day_classification (example_row 0 0 1 3 (Some (mk_time 9 40)) (Some (mk_time 17 0)))
     = ''1 Hour Leave (Early OUT)''
   \<and> get_day_classification (example_row 0 0 0 2 (Some (mk_time 9 40)) (Some (mk_time 18 0)))
     = ''2 x 15 Min Late''
   \<and> get_day_classification (example_row 0 0 0 0 (Some (mk_time 9 0)) None)
     = ''Incomplete Record''
   \<and> get_day_classification (example_row 0 0 0 0 (Some (mk_time 9 0)) (Some (mk_time 18 0)))
     = ''On Time''"
  using C3_day_classification_ladder [of "example_row 1 1 1 3 (Some (mk_time 11 0)) (Some (mk_time 16 0))"]
    C3_day_classification_ladder [of "example_row 1 0 1 3 (Some (mk_time 11 0)) (Some (mk_time 17 0))"]
    C3_day_classification_ladder [of "example_row 0 1 0 3 (Some (mk_time 9 40)) (Some (mk_time 16 0))"]
    C3_day_classification_ladder [of "example_row 0 0 1 3 (Some (mk_time 9 40)) (Some (mk_time 17 0))"]
    C3_day_classification_ladder [of "example_row 0 0 0 2 (Some (mk_time 9 40)) (Some (mk_time 18 0))"]
    C3_day_classification_ladder [of "example_row 0 0 0 0 (Some (mk_time 9 0)) None"]
    C3_day_classification_ladder [of "example_row 0 0 0 0 (Some (mk_time 9 0)) (Some (mk_time 18 0))"]
  by (simp add: example_row_def str_int_2)

section \<open>The time parser never raises\<close>

text \<open>
  C7. \<^verbatim>\<open>to_time_safe\<close> returns for every cell and never raises, whatever the pandas
  parser does. After trimming, the empty string and the strings \<^verbatim>\<open>00:00\<close>, \<^verbatim>\<open>nan\<close> and
  \<^verbatim>\<open>NaT\<close> give no time; a string that the strict parse accepts gives that time; a string
  that only the permissive parse accepts gives the time of day of its timestamp; a string that
  neither accepts, or on which the permissive parse raises, gives no time. The three literal
  strings are compared as written: \<^verbatim>\<open>NAN\<close> and \<^verbatim>\<open>nat\<close> go on to the parsers.
\<close>

theorem C7_to_time_safe_total:
  "(\<exists>r. to_time_safe to_datetime s = Inr r)
   \<and> (strip s = [] \<or> strip s = ''00:00'' \<or> strip s = ''nan'' \<or> strip s = ''NaT'' \<longrightarrow>
        to_time_safe to_datetime s = Inr None)
   \<and> (\<not> (strip s = [] \<or> strip s = ''00:00'' \<or> strip s = ''nan'' \<or> strip s = ''NaT'') \<longrightarrow>
        (strptime_HM (strip s) = Inr t \<longrightarrow> to_time_safe to_datetime s = Inr (Some t))
        \<and> (strptime_HM (strip s) = Inl e \<and> to_datetime (strip s) = Inr (Some dt_obj) \<longrightarrow>
             to_time_safe to_datetime s = Inr (Some (snd dt_obj)))
        \<and> (strptime_HM (strip s) = Inl e
             \<and> (to_datetime (strip s) = Inr None \<or> to_datetime (strip s) = Inl e') \<longrightarrow>
             to_time_safe to_datetime s = Inr None))
   \<and> to_time_safe (\<lambda>x. Inr (Some dt_obj)) ''NAN'' = Inr (Some (snd dt_obj))
   \<and> to_time_safe (\<lambda>x. Inr (Some dt_obj)) ''nat'' = Inr (Some (snd dt_obj))"
proof -
  have total: "\<exists>r. to_time_safe to_datetime s = Inr r"
    using strptime_HM_error [of "strip s"]
    by (auto simp: to_time_safe_def Let_def split: sum.splits option.splits)
  have skip: "to_time_safe to_datetime s = Inr None"
    if "strip s = [] \<or> strip s = ''00:00'' \<or> strip s = ''nan'' \<or> strip s = ''NaT''"
    using that by (auto simp: to_time_safe_def Let_def)
  have parse: "(strptime_HM (strip s) = Inr t \<longrightarrow> to_time_safe to_datetime s = Inr (Some t))
        \<and> (strptime_HM (strip s) = Inl e \<and> to_datetime (strip s) = Inr (Some dt_obj) \<longrightarrow>
             to_time_safe to_datetime s = Inr (Some (snd dt_obj)))
        \<and> (strptime_HM (strip s) = Inl e
             \<and> (to_datetime (strip s) = Inr None \<or> to_datetime (strip s) = Inl e') \<longrightarrow>
             to_time_safe to_datetime s = Inr None)"
    if "\<not> (strip s = [] \<or> strip s = ''00:00'' \<or> strip s = ''nan'' \<or> strip s = ''NaT'')"
    using that strptime_HM_error [of "strip s" e]
    by (auto simp: to_time_safe_def Let_def)
  have upper: "to_time_safe (\<lambda>x. Inr (Some dt_obj)) ''NAN'' = Inr (Some (snd dt_obj))"
    by (simp add: to_time_safe_def Let_def strip_def is_space_def strptime_HM_def is_digit_def)
  have lower: "to_time_safe (\<lambda>x. Inr (Some dt_obj)) ''nat'' = Inr (Some (snd dt_obj))"
    by (simp add: to_time_safe_def Let_def strip_def is_space_def strptime_HM_def is_digit_def)
  from total skip parse upper lower show ?thesis by blast
qed

text \<open>
  C7 at the cells \<^verbatim>\<open>nan\<close>, \<^verbatim>\<open> 9:05 \<close>, \<^verbatim>\<open>16:45:30\<close> and \<^verbatim>\<open>late\<close>, the last one
  also with a permissive parse that raises.
\<close>

theorem C7_witness:
  "strip ''nan'' = ''nan''
   \<and> to_time_safe (to_datetime_hms \<lparr>year = 2026, month = 11, day = 4\<rparr>) ''nan'' = Inr None
   \<and> strptime_HM (strip '' 9:05 '') = Inr (mk_time 9 5)
   \<and> to_time_safe (to_datetime_hms \<lparr>year = 2026, month = 11, day = 4\<rparr>) '' 9:05 ''
       = Inr (Some (mk_time 9 5))
   \<and> strptime_HM (strip ''16:45:30'') = Inl ValueError
   \<and> to_time_safe (to_datetime_hms \<lparr>year = 2026, month = 11, day = 4\<rparr>) ''16:45:30''
       = Inr (Some \<lparr>hour = 16, minute = 45, second = 30, microsecond = 0\<rparr>)
   \<and> strptime_HM (strip ''late'') = Inl ValueError
   \<and> to_datetime_hms \<lparr>year = 2026, month = 11, day = 4\<rparr> (strip ''late'') = Inr None
   \<and> to_time_safe (to_datetime_hms \<lparr>year = 2026, month = 11, day = 4\<rparr>) ''late'' = Inr None
   \<and> to_time_safe (\<lambda>x. Inl TypeError) ''late'' = Inr None"
proof -
  let ?d = "\<lparr>year = 2026, month = 11, day = 4\<rparr>"
  let ?t = "\<lparr>hour = 16, minute = 45, second = 30, microsecond = 0\<rparr>"
  have st: "strip ''nan'' = ''nan''" "strip '' 9:05 '' = ''9:05''"
      "strip ''16:45:30'' = ''16:45:30''" "strip ''late'' = ''late''"
    by (simp_all add: strip_def is_space_def)
  have strict: "strptime_HM ''9:05'' = Inr (mk_time 9 5)"
      "strptime_HM ''16:45:30'' = Inl ValueError" "strptime_HM ''late'' = Inl ValueError"
    by (simp_all add: strptime_HM_def is_digit_def digit_val_def)
  have perm: "to_datetime_hms ?d ''16:45:30'' = Inr (Some (?d, ?t))"
      "to_datetime_hms ?d ''late'' = Inr None"
    by (simp_all add: is_digit_def digit_val_def two_digits_def)
  show ?thesis
    using C7_to_time_safe_total [of "to_datetime_hms ?d" "''nan''"]
      C7_to_time_safe_total [of "to_datetime_hms ?d" "'' 9:05 ''" "mk_time 9 5"]
      C7_to_time_safe_total [of "to_datetime_hms ?d" "''16:45:30''" _ ValueError "(?d, ?t)"]
      C7_to_time_safe_total [of "to_datetime_hms ?d" "''late''" _ ValueError]
      C7_to_time_safe_total [of "\<lambda>x. Inl TypeError" "''late''" _ ValueError _ TypeError]
      st strict perm
    by simp
qed

section \<open>The date read from the clock\<close>

lemma calculate_late_status_date:
  "calculate_late_status d1 x = calculate_late_status d2 x"
proof (cases x)
  case None
  then show ?thesis by (simp add: calculate_late_status_def)
next
  case (Some t)
  then show ?thesis by (simp only: calculate_late_status_time)
qed

lemma calculate_early_out_status_date:
  "calculate_early_out_status d1 x = calculate_early_out_status d2 x"
proof (cases x)
  case None
  then show ?thesis by (simp add: calculate_early_out_status_def)
next
  case (Some t)
  then show ?thesis by (simp only: calculate_early_out_status_time)
qed

lemma classify_row_date: "classify_row a b r = classify_row c d r"
  unfolding classify_row_def
  using calculate_late_status_date [of a _ c] calculate_early_out_status_date [of b _ d]
  by (simp split: option.splits)

lemma classify_frame_map: "classify_frame clock_in clock_out df = map (classify_row d d) df"
proof -
  have "(\<lambda>(i, r). classify_row (clock_in i) (clock_out i) r) = (\<lambda>p. classify_row d d (snd p))"
    by (auto simp: fun_eq_iff intro: classify_row_date)
  then have "classify_frame clock_in clock_out df
      = map (\<lambda>p. classify_row d d (snd p)) (enumerate 0 df)"
    by (simp only: classify_frame_def)
  also have "\<dots> = map (classify_row d d) (map snd (enumerate 0 df))"
    by (simp only: map_map comp_def)
  also have "\<dots> = map (classify_row d d) df"
    by (simp only: map_snd_enumerate)
  finally show ?thesis .
qed

lemma classify_frame_date:
  "classify_frame clock_in clock_out df = classify_frame clock_in' clock_out' df"
  by (simp only: classify_frame_map [where d = "clock_in 0"])

lemma generate_employee_report_date:
  "generate_employee_report clock_in clock_out df name
     = generate_employee_report clock_in' clock_out' df name"
  unfolding generate_employee_report_def
  by (simp only: classify_frame_date [of clock_in clock_out _ clock_in' clock_out'])

lemma generate_consolidated_report_date:
  "generate_consolidated_report clock_in clock_out df
     = generate_consolidated_report clock_in' clock_out' df"
  unfolding generate_consolidated_report_def
  by (simp only: classify_frame_date [of clock_in clock_out _ clock_in' clock_out'])

lemma employee_reports_date:
  "employee_reports to_datetime clocks_in clocks_out df_raw
     = employee_reports to_datetime clocks_in' clocks_out' df_raw"
  unfolding employee_reports_def Let_def
  by (rule map_cong [OF refl]) (auto intro: generate_employee_report_date)

lemma consolidated_report_date:
  "consolidated_report to_datetime clock_in clock_out df_raw
     = consolidated_report to_datetime clock_in' clock_out' df_raw"
  unfolding consolidated_report_def Let_def
  by (simp only: generate_consolidated_report_date [of clock_in clock_out _ clock_in' clock_out'])

text \<open>
  The parser is called on another date too: pandas fills in the date of the run. Of what
  the parser returns, \<^verbatim>\<open>to_time_safe\<close> uses the time of day only.
\<close>

lemma to_time_safe_parsed_time:
  "to_time_safe to_datetime s0 =
     (let s = strip s0
      in if s = [] \<or> s \<in> set [''00:00'', ''nan'', ''NaT''] then Inr None
         else (case strptime_HM s of
                 Inr t \<Rightarrow> Inr (Some t)
               | Inl e \<Rightarrow> Inr (parsed_time (to_datetime s))))"
  using strptime_HM_error [of "strip s0"]
  by (auto simp: to_time_safe_def parsed_time_def Let_def split: sum.splits option.splits)

lemma to_time_safe_parser:
  assumes "\<forall>s. parsed_time (to_datetime s) = parsed_time (to_datetime' s)"
  shows "to_time_safe to_datetime = to_time_safe to_datetime'"
proof
  fix s0
  show "to_time_safe to_datetime s0 = to_time_safe to_datetime' s0"
    unfolding to_time_safe_parsed_time using assms by (simp add: Let_def split: sum.splits)
qed

lemma employee_block_parser:
  assumes "to_time_safe to_datetime = to_time_safe to_datetime'"
  shows "employee_block to_datetime df_raw hs i = employee_block to_datetime' df_raw hs i"
  unfolding employee_block_def assms ..

lemma employee_loop_parser:
  assumes "to_time_safe to_datetime = to_time_safe to_datetime'"
  shows "employee_loop to_datetime df_raw hs emp_rows = employee_loop to_datetime' df_raw hs emp_rows"
  by (induction emp_rows) (simp_all add: employee_block_parser [OF assms] split: sum.splits)

lemma restructure_attendance_data_parser:
  assumes "to_time_safe to_datetime = to_time_safe to_datetime'"
  shows "restructure_attendance_data to_datetime df_raw = restructure_attendance_data to_datetime' df_raw"
  unfolding restructure_attendance_data_def restructure_body_def
  by (simp only: employee_loop_parser [OF assms])

lemma to_datetime_hms_parsed_time:
  "parsed_time (to_datetime_hms d1 s) = parsed_time (to_datetime_hms d2 s)"
  by (induction d1 s rule: to_datetime_hms.induct) (simp_all add: parsed_time_def)

text \<open>
  C9. The output does not depend on the dates of the run. With any two dates the two rule
  functions return the same late units, flags and labels for the same time of day, and with
  any two sequences of dates read from the wall clock the classified records and both
  reports of the same records are the same. For the pipelines from the uploaded grid the
  parser of the first run and the parser of the second run are two parsers: when they give
  every cell the same time of day, whatever dates they attach to it, the parsed cells, the
  extracted records, the per-employee reports and the consolidated report of the two runs
  are the same. The hypothesis is about the time of day only; it holds for two runs of
  pandas on cells that spell a time, and not for the words \<^verbatim>\<open>now\<close> and \<^verbatim>\<open>today\<close> when
  the two runs start at different times of day.
\<close>

theorem C9_pipeline_date_independent:
  assumes "\<forall>s. parsed_time (to_datetime s) = parsed_time (to_datetime' s)"
  shows
  "calculate_late_status d1 x = calculate_late_status d2 x
   \<and> calculate_early_out_status d1 y = calculate_early_out_status d2 y
   \<and> classify_frame clock_in clock_out df = classify_frame clock_in' clock_out' df
   \<and> generate_employee_report clock_in clock_out df name
       = generate_employee_report clock_in' clock_out' df name
   \<and> generate_consolidated_report clock_in clock_out df
       = generate_consolidated_report clock_in' clock_out' df
   \<and> to_time_safe to_datetime s = to_time_safe to_datetime' s
   \<and> restructure_attendance_data to_datetime df_raw
       = restructure_attendance_data to_datetime' df_raw
   \<and> employee_reports to_datetime clocks_in clocks_out df_raw
       = employee_reports to_datetime' clocks_in' clocks_out' df_raw
   \<and> consolidated_report to_datetime clock_in clock_out df_raw
       = consolidated_report to_datetime' clock_in' clock_out' df_raw"
proof -
  have parser: "to_time_safe to_datetime = to_time_safe to_datetime'"
    by (rule to_time_safe_parser [OF assms])
  have parse: "restructure_attendance_data to_datetime df_raw
       = restructure_attendance_data to_datetime' df_raw"
    by (rule restructure_attendance_data_parser [OF parser])
  have "employee_reports to_datetime clocks_in clocks_out df_raw
       = employee_reports to_datetime' clocks_in clocks_out df_raw"
    unfolding employee_reports_def parse ..
  then have reports: "employee_reports to_datetime clocks_in clocks_out df_raw
       = employee_reports to_datetime' clocks_in' clocks_out' df_raw"
    by (simp only: employee_reports_date [of to_datetime' clocks_in clocks_out df_raw clocks_in' clocks_out'])
  have "consolidated_report to_datetime clock_in clock_out df_raw
       = consolidated_report to_datetime' clock_in clock_out df_raw"
    unfolding consolidated_report_def parse ..
  then have consolidated: "consolidated_report to_datetime clock_in clock_out df_raw
       = consolidated_report to_datetime' clock_in' clock_out' df_raw"
    by (simp only: consolidated_report_date [of to_datetime' clock_in clock_out df_raw clock_in' clock_out'])
  from calculate_late_status_date [of d1 x d2] calculate_early_out_status_date [of d1 y d2]
    classify_frame_date [of clock_in clock_out df clock_in' clock_out']
    generate_employee_report_date [of clock_in clock_out df name clock_in' clock_out']
    generate_consolidated_report_date [of clock_in clock_out df clock_in' clock_out']
    parser parse reports consolidated
  show ?thesis by (simp only: simp_thms)
qed

text \<open>
  C9 for two runs on the example grid, on 4 November 2026 and on 15 February 2027: the
  parsers return different timestamps for the cell \<^verbatim>\<open>11:00:30\<close> and the same time of
  day, and the reports are the same.
\<close>

theorem C9_witness:
  "to_datetime_hms \<lparr>year = 2026, month = 11, day = 4\<rparr> ''11:00:30''
     \<noteq> to_datetime_hms \<lparr>year = 2027, month = 2, day = 15\<rparr> ''11:00:30''
   \<and> parsed_time (to_datetime_hms \<lparr>year = 2026, month = 11, day = 4\<rparr> ''11:00:30'')
       = parsed_time (to_datetime_hms \<lparr>year = 2027, month = 2, day = 15\<rparr> ''11:00:30'')
   \<and> restructure_attendance_data (to_datetime_hms \<lparr>year = 2026, month = 11, day = 4\<rparr>) example_grid
       = restructure_attendance_data (to_datetime_hms \<lparr>year = 2027, month = 2, day = 15\<rparr>) example_grid
   \<and> employee_reports (to_datetime_hms \<lparr>year = 2026, month = 11, day = 4\<rparr>)
         (\<lambda>k i. \<lparr>year = 2026, month = 11, day = 4\<rparr>) (\<lambda>k i. \<lparr>year = 2026, month = 11, day = 4\<rparr>)
         example_grid
       = employee_reports (to_datetime_hms \<lparr>year = 2027, month = 2, day = 15\<rparr>)
         (\<lambda>k i. \<lparr>year = 2027, month = 2, day = 15\<rparr>) (\<lambda>k i. \<lparr>year = 2027, month = 2, day = 15\<rparr>)
         example_grid
   \<and> consolidated_report (to_datetime_hms \<lparr>year = 2026, month = 11, day = 4\<rparr>)
         (\<lambda>i. \<lparr>year = 2026, month = 11, day = 4\<rparr>) (\<lambda>i. \<lparr>year = 2026, month = 11, day = 4\<rparr>)
         example_grid
       = consolidated_report (to_datetime_hms \<lparr>year = 2027, month = 2, day = 15\<rparr>)
         (\<lambda>i. \<lparr>year = 2027, month = 2, day = 15\<rparr>) (\<lambda>i. \<lparr>year = 2027, month = 2, day = 15\<rparr>)
         example_grid
   \<and> summary_rows
        (consolidated_report (to_datetime_hms \<lparr>year = 2027, month = 2, day = 15\<rparr>)
           (\<lambda>i. \<lparr>year = 2027, month = 2, day = 15\<rparr>) (\<lambda>i. \<lparr>year = 2027, month = 2, day = 15\<rparr>)
           example_grid)
       = [\<lparr>Employee = ''Asha'', Late_Units_15_Min = 0, Half_Day_Incidents = 1,
           One_Hour_Leaves = 0\<rparr>]"
proof -
  let ?D1 = "\<lparr>year = 2026, month = 11, day = 4\<rparr>"
  let ?D2 = "\<lparr>year = 2027, month = 2, day = 15\<rparr>"
  have agree: "\<forall>s. parsed_time (to_datetime_hms ?D1 s) = parsed_time (to_datetime_hms ?D2 s)"
    by (simp add: to_datetime_hms_parsed_time [of ?D1 _ ?D2])
  have differ: "to_datetime_hms ?D1 ''11:00:30'' \<noteq> to_datetime_hms ?D2 ''11:00:30''"
    by (simp add: is_digit_def digit_val_def two_digits_def)
  have rows: "summary_rows (consolidated_report (to_datetime_hms ?D2) (\<lambda>i. ?D2) (\<lambda>i. ?D2) example_grid)
       = [\<lparr>Employee = ''Asha'', Late_Units_15_Min = 0, Half_Day_Incidents = 1,
           One_Hour_Leaves = 0\<rparr>]"
    by code_simp
  show ?thesis
    using C9_pipeline_date_independent [OF agree, of ?D1 None ?D2 None "\<lambda>i. ?D1" "\<lambda>i. ?D1" "[]" "\<lambda>i. ?D2" "\<lambda>i. ?D2" "''''" "''11:00:30''"
        example_grid "\<lambda>k i. ?D1" "\<lambda>k i. ?D1" "\<lambda>k i. ?D2" "\<lambda>k i. ?D2"]
      agree differ rows
    by (simp add: parsed_time_def is_digit_def digit_val_def two_digits_def)
qed

text \<open>
  The hypothesis of C9 cannot be dropped: for the in-time cell \<^verbatim>\<open>now\<close> a run at 09:00
  counts no half day and a run at 11:00 counts one. The two runs differ in the time of day
  at which they start, not in their date.
\<close>

lemma parser_time_of_day_matters:
  "summary_rows
     (consolidated_report
        (to_datetime_now (\<lparr>year = 2026, month = 11, day = 4\<rparr>, mk_time 9 0))
        (\<lambda>i. \<lparr>year = 2026, month = 11, day = 4\<rparr>) (\<lambda>i. \<lparr>year = 2026, month = 11, day = 4\<rparr>)
        grid_now)
     = [\<lparr>Employee = ''Asha'', Late_Units_15_Min = 0, Half_Day_Incidents = 0,
         One_Hour_Leaves = 0\<rparr>]
   \<and> summary_rows
     (consolidated_report
        (to_datetime_now (\<lparr>year = 2026, month = 11, day = 4\<rparr>, mk_time 11 0))
        (\<lambda>i. \<lparr>year = 2026, month = 11, day = 4\<rparr>) (\<lambda>i. \<lparr>year = 2026, month = 11, day = 4\<rparr>)
        grid_now)
     = [\<lparr>Employee = ''Asha'', Late_Units_15_Min = 0, Half_Day_Incidents = 1,
         One_Hour_Leaves = 0\<rparr>]"
  by code_simp

section \<open>The two reporting modes\<close>

lemma Employee_Name_classify_row [simp]:
  "Employee_Name (classify_row a b r) = Employee_Name r"
  by (simp add: classify_row_def Let_def)

lemma add_flags_fields:
  "Employee_Name (add_flags c) = Employee_Name c"
  "late_units (add_flags c) = late_units c"
  "is_half_day (add_flags c)
     = (if is_morning_half_day c = 1 \<or> is_evening_half_day c = 1 then 1 else 0)"
  "is_one_hour_leave (add_flags c)
     = (if \<not> (is_morning_half_day c = 1 \<or> is_evening_half_day c = 1) \<and> early_out_units c = 1
        then 1 else 0)"
  by (simp_all add: add_flags_def Let_def)

lemma filter_classify_frame:
  "filter (\<lambda>r. Employee_Name r = n) (classify_frame clock_in clock_out df)
     = classify_frame clock_in' clock_out' (filter (\<lambda>r. Employee_Name r = n) df)"
  by (simp add: classify_frame_map [where d = "clock_in 0"] filter_map comp_def)

lemma filter_distinct_single:
  "distinct xs \<Longrightarrow> x \<in> set xs \<Longrightarrow> filter (\<lambda>y. y = x) xs = [x]"
  by (induction xs) (auto simp: filter_empty_conv)

lemma length_filter_sum_list:
  "int (length (filter P xs)) = sum_list (map (\<lambda>x. if P x then 1 else 0) xs)"
  by (induction xs) simp_all

lemma group_sums_employee:
  "group_sums (map add_flags (classify_frame clock_in clock_out df)) n =
     (let E = classify_frame clock_in' clock_out' (filter (\<lambda>r. Employee_Name r = n) df)
      in \<lparr>Employee = n,
          Late_Units_15_Min = sum_list (map late_units E),
          Half_Day_Incidents =
            sum_list (map (\<lambda>r. if is_morning_half_day r = 1 \<or> is_evening_half_day r = 1
                                then 1 else 0) E),
          One_Hour_Leaves =
            sum_list (map (\<lambda>r. if \<not> (is_morning_half_day r = 1 \<or> is_evening_half_day r = 1)
                                    \<and> early_out_units r = 1
                                then 1 else 0) E)\<rparr>)"
proof -
  have grp: "filter (\<lambda>r. Employee_Name r = n) (map add_flags (classify_frame clock_in clock_out df))
      = map add_flags (classify_frame clock_in' clock_out' (filter (\<lambda>r. Employee_Name r = n) df))"
    by (simp add: filter_map comp_def add_flags_fields(1)
        filter_classify_frame [of n clock_in clock_out df clock_in' clock_out'])
  show ?thesis
    unfolding group_sums_def Let_def grp
    by (simp add: comp_def add_flags_fields)
qed

text \<open>
  C4. For an employee with records, the per-employee report counts as half-day incidents
  the sum over the employee's classified records of the morning flag plus the evening flag,
  and as one-hour leaves the records whose early-out units are 1. The consolidated report
  has exactly one row for the employee; its half-day incidents count each record whose
  morning or evening flag is 1 once, and its one-hour leaves count the records with neither
  flag and early-out units 1. So a record with both flags adds 2 in the first mode and 1 in
  the second, and no record is counted both as a half day and as a one-hour leave in the
  second.
\<close>

theorem C4_reporting_modes:
  assumes "name \<in> Employee_Name ` set df"
  shows
    "generate_employee_report clock_in clock_out df name =
       (let E = classify_frame clock_in clock_out (filter (\<lambda>r. Employee_Name r = name) df)
        in Inr ([(''Total 15 Min Late Units'', sum_list (map late_units E)),
                 (''Total Half Day Incidents'',
                    sum_list (map (\<lambda>r. is_morning_half_day r + is_evening_half_day r) E)),
                 (''Total 1 Hour Leaves'',
                    int (length (filter (\<lambda>r. early_out_units r = 1) E)))],
                map detail_of E))
     \<and> filter (\<lambda>s. Employee s = name)
          (summary_rows (generate_consolidated_report clock_in clock_out df)) =
       (let E = classify_frame clock_in clock_out (filter (\<lambda>r. Employee_Name r = name) df)
        in [\<lparr>Employee = name,
             Late_Units_15_Min = sum_list (map late_units E),
             Half_Day_Incidents =
               sum_list (map (\<lambda>r. if is_morning_half_day r = 1 \<or> is_evening_half_day r = 1
                                   then 1 else 0) E),
             One_Hour_Leaves =
               int (length (filter (\<lambda>r. \<not> (is_morning_half_day r = 1 \<or> is_evening_half_day r = 1)
                                         \<and> early_out_units r = 1) E))\<rparr>])
     \<and> (is_morning_half_day c = 1 \<and> is_evening_half_day c = 1 \<longrightarrow>
          is_morning_half_day c + is_evening_half_day c = 2 \<and> is_half_day (add_flags c) = 1)
     \<and> (is_half_day (add_flags c) = 1 \<longrightarrow> is_one_hour_leave (add_flags c) = 0)
     \<and> (is_one_hour_leave (add_flags c) = 1 \<longleftrightarrow>
          is_half_day (add_flags c) = 0 \<and> early_out_units c = 1)"
proof -
  let ?E = "classify_frame clock_in clock_out (filter (\<lambda>r. Employee_Name r = name) df)"
  from assms have nonempty: "filter (\<lambda>r. Employee_Name r = name) df \<noteq> []"
    by (auto simp: filter_empty_conv)
  from assms have df: "df \<noteq> []"
    by auto
  have per_employee: "generate_employee_report clock_in clock_out df name =
       Inr ([(''Total 15 Min Late Units'', sum_list (map late_units ?E)),
             (''Total Half Day Incidents'',
                sum_list (map (\<lambda>r. is_morning_half_day r + is_evening_half_day r) ?E)),
             (''Total 1 Hour Leaves'', int (length (filter (\<lambda>r. early_out_units r = 1) ?E)))],
            map detail_of ?E)"
    using nonempty
    by (simp add: generate_employee_report_def Let_def sum_list_addf)
  let ?calc = "map add_flags (classify_frame clock_in clock_out df)"
  let ?names = "sort (remdups (map Employee_Name ?calc))"
  have names: "distinct ?names" "name \<in> set ?names"
    using assms
    by (auto simp: classify_frame_map [where d = "clock_in 0"] add_flags_fields(1) image_iff)
  have "filter (\<lambda>s. Employee s = name) (map (group_sums ?calc) ?names)
      = map (group_sums ?calc) (filter (\<lambda>n. n = name) ?names)"
    by (simp add: filter_map comp_def group_sums_def Let_def)
  also have "\<dots> = [group_sums ?calc name]"
    by (simp only: filter_distinct_single [OF names] list.map)
  finally have one_row: "filter (\<lambda>s. Employee s = name)
      (summary_rows (generate_consolidated_report clock_in clock_out df)) = [group_sums ?calc name]"
    using df by (simp add: generate_consolidated_report_def summary_rows_def Let_def)
  have consolidated: "filter (\<lambda>s. Employee s = name)
          (summary_rows (generate_consolidated_report clock_in clock_out df)) =
        [\<lparr>Employee = name,
          Late_Units_15_Min = sum_list (map late_units ?E),
          Half_Day_Incidents =
            sum_list (map (\<lambda>r. if is_morning_half_day r = 1 \<or> is_evening_half_day r = 1
                                then 1 else 0) ?E),
          One_Hour_Leaves =
            int (length (filter (\<lambda>r. \<not> (is_morning_half_day r = 1 \<or> is_evening_half_day r = 1)
                                      \<and> early_out_units r = 1) ?E))\<rparr>]"
    unfolding one_row group_sums_employee [of clock_in clock_out df name clock_in clock_out]
      Let_def length_filter_sum_list
    by simp
  have flags: "(is_morning_half_day c = 1 \<and> is_evening_half_day c = 1 \<longrightarrow>
          is_morning_half_day c + is_evening_half_day c = 2 \<and> is_half_day (add_flags c) = 1)
     \<and> (is_half_day (add_flags c) = 1 \<longrightarrow> is_one_hour_leave (add_flags c) = 0)
     \<and> (is_one_hour_leave (add_flags c) = 1 \<longleftrightarrow>
          is_half_day (add_flags c) = 0 \<and> early_out_units c = 1)"
    by (simp add: add_flags_fields)
  from per_employee consolidated flags show ?thesis
    unfolding Let_def by (intro conjI) simp_all
qed

text \<open>
  C4 on the example frame: the employee has a record with both half days and a record with
  a morning half day and a one-hour leave. Per-employee mode counts 3 half-day incidents and
  1 one-hour leave, consolidated mode 2 and 0.
\<close>

theorem C4_witness:
  "''Asha'' \<in> Employee_Name ` set example_frame
   \<and> map_sum id fst
        (generate_employee_report (\<lambda>i. \<lparr>year = 2026, month = 11, day = 4\<rparr>)
           (\<lambda>i. \<lparr>year = 2026, month = 11, day = 4\<rparr>) example_frame ''Asha'')
       = Inr [(''Total 15 Min Late Units'', 0), (''Total Half Day Incidents'', 3),
              (''Total 1 Hour Leaves'', 1)]
   \<and> filter (\<lambda>s. Employee s = ''Asha'')
        (summary_rows
           (generate_consolidated_report (\<lambda>i. \<lparr>year = 2026, month = 11, day = 4\<rparr>)
              (\<lambda>i. \<lparr>year = 2026, month = 11, day = 4\<rparr>) example_frame))
       = [\<lparr>Employee = ''Asha'', Late_Units_15_Min = 0, Half_Day_Incidents = 2,
           One_Hour_Leaves = 0\<rparr>]"
proof -
  let ?d = "\<lambda>i::nat. \<lparr>year = 2026, month = 11, day = 4\<rparr>"
  let ?E = "classify_frame ?d ?d (filter (\<lambda>r. Employee_Name r = ''Asha'') example_frame)"
  have member: "''Asha'' \<in> Employee_Name ` set example_frame"
    by (simp add: example_frame_def)
  have rows: "?E =
      [\<lparr>Employee_Name = ''Asha'', Date_Day = ''1 Mon'',
        Time_In = Some (mk_time 11 0), Time_Out = Some (mk_time 16 0),
        late_units = 0, late_classification = ''Half Day Leave (Morning IN)'',
        is_morning_half_day = 1, early_out_units = 0,
        early_out_classification = ''Half Day Leave (Evening OUT)'', is_evening_half_day = 1\<rparr>,
       \<lparr>Employee_Name = ''Asha'', Date_Day = ''2 Tue'',
        Time_In = Some (mk_time 11 0), Time_Out = Some (mk_time 17 0),
        late_units = 0, late_classification = ''Half Day Leave (Morning IN)'',
        is_morning_half_day = 1, early_out_units = 1,
        early_out_classification = ''1 Hour Leave'', is_evening_half_day = 0\<rparr>]"
    by (simp add: example_frame_def classify_frame_def classify_row_def enumerate_eq_zip
        calculate_late_status_minutes calculate_early_out_status_minutes valid_mk_time
        minutes_of_mk_time upt_rec [of 0] )
  have late: "sum_list (map late_units ?E) = 0"
    unfolding rows by simp
  have half_sum: "sum_list (map (\<lambda>r. is_morning_half_day r + is_evening_half_day r) ?E) = 3"
    unfolding rows by simp
  have one_hour_count: "int (length (filter (\<lambda>r. early_out_units r = 1) ?E)) = 1"
    unfolding rows by simp
  have half_or: "sum_list (map (\<lambda>r. if is_morning_half_day r = 1 \<or> is_evening_half_day r = 1
                                then 1 else 0) ?E) = (2::int)"
    unfolding rows by simp
  have one_hour_gated:
    "int (length (filter (\<lambda>r. \<not> (is_morning_half_day r = 1 \<or> is_evening_half_day r = 1)
                              \<and> early_out_units r = 1) ?E)) = 0"
    unfolding rows by simp
  show ?thesis
    using C4_reporting_modes [OF member, of ?d ?d]
    unfolding Let_def late half_sum one_hour_count half_or one_hour_gated
    using member by simp
qed

section \<open>The block extractor on grids\<close>

text \<open>The extractor on the example grid: two present days of one employee, no message.\<close>

lemma example_grid_result:
  "restructure_attendance_data (to_datetime_hms \<lparr>year = 2026, month = 11, day = 4\<rparr>)
     example_grid
   = ([\<lparr>Employee_Name = ''Asha'', Date_Day = ''1 Mon'',
        Time_In = Some (mk_time 9 10), Time_Out = Some (mk_time 17 50)\<rparr>,
       \<lparr>Employee_Name = ''Asha'', Date_Day = ''2 Tue'',
        Time_In = Some \<lparr>hour = 11, minute = 0, second = 30, microsecond = 0\<rparr>,
        Time_Out = Some (mk_time 16 0)\<rparr>],
      [])"
  by code_simp

lemma index_max_not_None: "index_max idx \<noteq> PyNone"
  by (simp add: index_max_def)

lemma matching_rows_empty:
  "\<forall>x \<in> set col. \<not> P x \<Longrightarrow> matching_rows P col = []"
  by (auto simp: matching_rows_def filter_empty_conv)

text \<open>
  C5 says that a grid without a \<^verbatim>\<open>Days\<close> row gives an empty result and no error message.
  The result is empty, but the message is shown: the maximum of the empty index is
  \<^verbatim>\<open>NaN\<close>, the test \<^verbatim>\<open>days_row_index is None\<close> fails, reading the row at \<^verbatim>\<open>NaN\<close>
  raises, and the outer handler reports a severe structural error. For every grid without a
  \<^verbatim>\<open>Days\<close> row the function returns the empty frame together with that message.
\<close>

theorem C5_missing_days_reported:
  assumes "\<forall>r \<in> set df_raw. \<not> is_days (strip (hd r))"
  shows "restructure_attendance_data to_datetime df_raw =
           ([], [Severe_structural_error (if ncols df_raw = 0 then KeyError else ValueError)])"
proof (cases "ncols df_raw = 0")
  case True
  then show ?thesis
    by (simp add: restructure_attendance_data_def restructure_body_def column0_def)
next
  case False
  from assms have "matching_rows is_days (map (\<lambda>r. strip (hd r)) df_raw) = []"
    by (intro matching_rows_empty) simp
  then have "index_max (matching_rows is_days (map (\<lambda>r. strip (hd r)) df_raw)) = NaN"
    by (simp add: index_max_def)
  with False show ?thesis
    by (simp add: restructure_attendance_data_def restructure_body_def column0_def Let_def
        iloc_from_scalar_def)
qed

text \<open>The example grid without its first row has no \<^verbatim>\<open>Days\<close> row.\<close>

theorem C5_witness:
  "filter (\<lambda>r. is_days (strip (hd r))) grid_without_days = []
   \<and> restructure_attendance_data (to_datetime_hms \<lparr>year = 2026, month = 11, day = 4\<rparr>)
        grid_without_days
      = ([], [Severe_structural_error ValueError])"
proof -
  have no_days: "\<forall>r \<in> set grid_without_days. \<not> is_days (strip (hd r))"
    by (simp add: grid_without_days_def example_grid_def is_days_def strip_def is_space_def)
  have cols: "ncols grid_without_days \<noteq> 0"
    by (simp add: grid_without_days_def example_grid_def ncols_def)
  show ?thesis
    using C5_missing_days_reported [OF no_days, of "to_datetime_hms \<lparr>year = 2026, month = 11, day = 4\<rparr>"]
      no_days cols
    by (simp add: filter_empty_conv)
qed

text \<open>
  C8 says that every record emitted has a non-empty employee name. The block is skipped
  when the name cell is empty, but the name is the part of the cell after its last colon:
  the cell \<^verbatim>\<open>101 :\<close> is not empty and its name is. Both records of the block are
  emitted with the empty name, and no message is shown.
\<close>

theorem C8_empty_employee_name:
  "restructure_attendance_data (to_datetime_hms \<lparr>year = 2026, month = 11, day = 4\<rparr>)
     grid_name_missing
   = ([\<lparr>Employee_Name = '''', Date_Day = ''1 Mon'',
        Time_In = Some (mk_time 9 10), Time_Out = Some (mk_time 17 50)\<rparr>,
       \<lparr>Employee_Name = '''', Date_Day = ''2 Tue'',
        Time_In = Some \<lparr>hour = 11, minute = 0, second = 30, microsecond = 0\<rparr>,
        Time_Out = Some (mk_time 16 0)\<rparr>],
      [])"
  by code_simp

end
